theory Spec2Isabelle
  imports Main "HOL-Library.Sublist"
begin

section \<open>The environment: paths, the file system, Python's \<open>str\<close> and \<open>int\<close>\<close>

text \<open>
  The job manager of \<^verbatim>\<open>lwr/managers/base.py\<close> keeps the whole state of a job in the file
  system: a directory per job and marker files in it. The manager is embedded as functions
  on a record \<open>world\<close> that holds the manager object's fields and the part of the operating
  system the code touches. Every exception of the source is a value \<open>Inl e\<close>; a method that
  raises after having changed something returns the changed world with the error.
\<close>

datatype error = KeyError | IOError | OSError | ValueError | AssertionError

subsection \<open>\<open>os.path.join\<close> and the components of a path\<close>

text \<open>
  \<open>os.path.join a b\<close> of \<^verbatim>\<open>posixpath\<close>, for two arguments: an absolute \<open>b\<close> replaces \<open>a\<close>,
  otherwise \<open>b\<close> is appended, with a separator unless \<open>a\<close> is empty or ends with one.
\<close>

definition os_path_join :: "string \<Rightarrow> string \<Rightarrow> string" where
  "os_path_join a b =
     (if b \<noteq> [] \<and> hd b = CHR ''/'' then b
      else if a = [] \<or> last a = CHR ''/'' then a @ b
      else a @ ''/'' @ b)"

text \<open>
  A path string is cut at its separators into components; empty components (from a
  leading, a doubled or a trailing separator) are dropped.
\<close>

type_synonym path = "string list"

fun split_path :: "string \<Rightarrow> string \<Rightarrow> string list" where
  "split_path cur [] = [cur]"
| "split_path cur (c # cs) =
     (if c = CHR ''/'' then cur # split_path [] cs else split_path (cur @ [c]) cs)"

definition components :: "string \<Rightarrow> string list" where
  "components s = filter (\<lambda>c. c \<noteq> []) (split_path [] s)"

subsection \<open>Python's \<open>str\<close> and \<open>int\<close> on decimal numerals\<close>

definition digit_char :: "nat \<Rightarrow> char" where
  "digit_char d = ''0123456789'' ! d"

fun str_nat :: "nat \<Rightarrow> string" where
  "str_nat n = (if n < 10 then [digit_char n] else str_nat (n div 10) @ [digit_char (n mod 10)])"

declare str_nat.simps [simp del]

definition py_str :: "int \<Rightarrow> string" where
  "py_str i = (if i < 0 then CHR ''-'' # str_nat (nat (- i)) else str_nat (nat i))"

definition is_digit :: "char \<Rightarrow> bool" where
  "is_digit c = (c \<in> set ''0123456789'')"

definition digit_val :: "char \<Rightarrow> nat" where
  "digit_val c = length (takeWhile (\<lambda>d. d \<noteq> c) ''0123456789'')"

definition is_space :: "char \<Rightarrow> bool" where
  "is_space c = (c \<in> set [CHR '' '', CHR 0x09, CHR 0x0A, CHR 0x0B, CHR 0x0C, CHR 0x0D])"

definition strip :: "string \<Rightarrow> string" where
  "strip s = rev (dropWhile is_space (rev (dropWhile is_space s)))"

definition parse_nat :: "string \<Rightarrow> nat option" where
  "parse_nat s =
     (if s \<noteq> [] \<and> list_all is_digit s
      then Some (foldl (\<lambda>acc c. acc * 10 + digit_val c) 0 s) else None)"

text \<open>
  \<open>int(s)\<close> of Python 2 on a \<open>str\<close>, base 10: surrounding white space is dropped, one sign is
  allowed, then at least one digit and nothing else. \<open>None\<close> stands for \<open>ValueError\<close>.
\<close>

definition py_int :: "string \<Rightarrow> int option" where
  "py_int s =
     (case strip s of
        [] \<Rightarrow> None
      | c # cs \<Rightarrow>
          if c = CHR ''-'' then map_option (\<lambda>n. - int n) (parse_nat cs)
          else if c = CHR ''+'' then map_option int (parse_nat cs)
          else map_option int (parse_nat (c # cs)))"

subsection \<open>The file system and the world\<close>

text \<open>
  A file system maps a resolved path to a regular file with its contents or to a directory;
  the root always is a directory. \<open>disk\<close> is the condition of the storage while an
  operation runs: with \<open>OpenFault\<close> no file can be opened for writing, with \<open>WriteFault\<close> a
  file is opened (created or truncated) but writing to it fails, so it stays empty.
\<close>

datatype node = File string | Dir

datatype fault = NoFault | OpenFault | WriteFault

text \<open>
  The \<open>Popen\<close> object of a child process, as far as the manager reads it: its process
  identifier and, once \<open>wait\<close> has returned, its return code.
\<close>

record popen =
  proc_pid :: int
  proc_returncode :: int

text \<open>
  \<open>staging_directory\<close> and \<open>job_locks\<close> are the fields of the \<open>Manager\<close> object (of the
  dictionary of locks only the keys matter: between two operations every lock is free, and a
  \<^verbatim>\<open>with\<close> block runs as one step). \<open>procs\<close> lists the processes spawned (pid, command line,
  working directory), \<open>monitors\<close> the monitor threads started, \<open>signalled\<close> the pids a
  termination signal was sent to.
\<close>

record world =
  staging_directory :: string
  job_locks :: "string set"
  fs :: "path \<Rightarrow> node option"
  disk :: fault
  procs :: "(int \<times> string \<times> string) list"
  monitors :: "(string \<times> popen) list"
  signalled :: "int list"

text \<open>
  The operating system resolves a path by looking its components up one after the other,
  from the root (a relative path too: the current directory is taken to be the root, and
  symbolic links are not modelled). \<open>.\<close> stays, \<open>..\<close> steps to the parent (the parent of the
  root is the root), a name steps down. Every component but the last must lead to an
  existing directory: \<^verbatim>\<open>/s/nope/../x\<close> does not resolve when \<^verbatim>\<open>/s/nope\<close> is missing. What
  the last component leads to need not exist. \<open>None\<close> is the failure of the lookup.
\<close>

definition is_dir_at :: "(path \<Rightarrow> node option) \<Rightarrow> path \<Rightarrow> bool" where
  "is_dir_at f p = (p = [] \<or> f p = Some Dir)"

fun walk :: "(path \<Rightarrow> node option) \<Rightarrow> path \<Rightarrow> string list \<Rightarrow> path option" where
  "walk f cur [] = Some cur"
| "walk f cur (c # cs) =
     (let nxt = (if c = ''.'' then cur else if c = ''..'' then butlast cur else cur @ [c])
      in if cs = [] then Some nxt
         else if is_dir_at f nxt then walk f nxt cs
         else None)"

text \<open>
  The empty path does not resolve. A trailing separator demands a directory, as a last
  component \<open>.\<close> does. \<open>resolve_new\<close> is the resolution of the path of a directory to be
  created by \<open>mkdir\<close>, where a trailing separator is ignored.
\<close>

definition resolve :: "world \<Rightarrow> string \<Rightarrow> path option" where
  "resolve w s =
     (if s = [] then None
      else walk (fs w) []
             (components s @ (if last s = CHR ''/'' \<and> components s \<noteq> [] then [''.''] else [])))"

definition resolve_new :: "world \<Rightarrow> string \<Rightarrow> path option" where
  "resolve_new w s = (if s = [] then None else walk (fs w) [] (components s))"

definition node_at :: "world \<Rightarrow> path \<Rightarrow> node option" where
  "node_at w p = (if p = [] then Some Dir else fs w p)"

definition os_path_exists :: "world \<Rightarrow> string \<Rightarrow> bool" where
  "os_path_exists w s =
     (case resolve w s of None \<Rightarrow> False | Some p \<Rightarrow> node_at w p \<noteq> None)"

definition os_path_isdir :: "world \<Rightarrow> string \<Rightarrow> bool" where
  "os_path_isdir w s =
     (case resolve w s of None \<Rightarrow> False | Some p \<Rightarrow> node_at w p = Some Dir)"

text \<open>
  \<open>os.mkdir\<close>: the path must resolve (so its parent is an existing directory) and be free.
\<close>

definition os_mkdir :: "world \<Rightarrow> string \<Rightarrow> (error + unit) \<times> world" where
  "os_mkdir w s =
     (case resolve_new w s of
        None \<Rightarrow> (Inl OSError, w)
      | Some p \<Rightarrow>
          if node_at w p \<noteq> None then (Inl OSError, w)
          else (Inr (), w\<lparr>fs := (fs w)(p \<mapsto> Dir)\<rparr>))"

text \<open>
  \<open>os.makedirs\<close>, called on a path that does not exist: every missing directory on the way
  is created; a regular file on the way is an \<open>OSError\<close> (\<open>None\<close>).
\<close>

fun mk_all :: "(path \<Rightarrow> node option) \<Rightarrow> path \<Rightarrow> string list \<Rightarrow> (path \<Rightarrow> node option) option" where
  "mk_all f cur [] = Some f"
| "mk_all f cur (c # cs) =
     (let nxt = (if c = ''.'' then cur else if c = ''..'' then butlast cur else cur @ [c])
      in if is_dir_at f nxt then mk_all f nxt cs
         else if f nxt = None then mk_all (f(nxt \<mapsto> Dir)) nxt cs
         else None)"

definition os_makedirs :: "world \<Rightarrow> string \<Rightarrow> (error + unit) \<times> world" where
  "os_makedirs w s =
     (if s = [] then (Inl OSError, w)
      else case mk_all (fs w) [] (components s) of
             None \<Rightarrow> (Inl OSError, w)
           | Some f \<Rightarrow> (Inr (), w\<lparr>fs := f\<rparr>))"

text \<open>
  \<open>open(path, 'w')\<close>: creates the file or truncates it, and returns the file object, here
  the resolved path of the file. It fails when the path does not resolve, on a directory,
  and when the disk refuses.
\<close>

definition open_w :: "world \<Rightarrow> string \<Rightarrow> (error + path) \<times> world" where
  "open_w w s =
     (case resolve w s of
        None \<Rightarrow> (Inl IOError, w)
      | Some p \<Rightarrow>
          if disk w = OpenFault \<or> node_at w p = Some Dir then (Inl IOError, w)
          else (Inr p, w\<lparr>fs := (fs w)(p \<mapsto> File [])\<rparr>))"

text \<open>\<open>open(path, 'w')\<close>, \<open>write(contents)\<close> and \<open>close()\<close>.\<close>

definition write_file :: "world \<Rightarrow> string \<Rightarrow> string \<Rightarrow> (error + unit) \<times> world" where
  "write_file w s contents =
     (case open_w w s of
        (Inl e, w1) \<Rightarrow> (Inl e, w1)
      | (Inr p, w1) \<Rightarrow>
          if disk w1 = WriteFault then (Inl IOError, w1)
          else (Inr (), w1\<lparr>fs := (fs w1)(p \<mapsto> File contents)\<rparr>))"

text \<open>\<open>open(path, 'r')\<close>, \<open>read()\<close> and \<open>close()\<close>.\<close>

definition read_file :: "world \<Rightarrow> string \<Rightarrow> error + string" where
  "read_file w s =
     (case resolve w s of
        None \<Rightarrow> Inl IOError
      | Some p \<Rightarrow>
          (case node_at w p of
             Some (File contents) \<Rightarrow> Inr contents
           | Some Dir \<Rightarrow> Inl IOError
           | None \<Rightarrow> Inl IOError))"

text \<open>\<open>os.remove\<close> removes a regular file and raises \<open>OSError\<close> on anything else.\<close>

definition os_remove :: "world \<Rightarrow> string \<Rightarrow> (error + unit) \<times> world" where
  "os_remove w s =
     (case resolve w s of
        None \<Rightarrow> (Inl OSError, w)
      | Some p \<Rightarrow>
          (case node_at w p of
             Some (File contents) \<Rightarrow> (Inr (), w\<lparr>fs := (fs w)(p := None)\<rparr>)
           | Some Dir \<Rightarrow> (Inl OSError, w)
           | None \<Rightarrow> (Inl OSError, w)))"

text \<open>
  \<open>shutil.rmtree\<close> removes a directory and everything below it, and raises on a path that
  is no directory. (Failures half way through a tree are not modelled.)
\<close>

definition shutil_rmtree :: "world \<Rightarrow> string \<Rightarrow> (error + unit) \<times> world" where
  "shutil_rmtree w s =
     (case resolve w s of
        None \<Rightarrow> (Inl OSError, w)
      | Some p \<Rightarrow>
          if node_at w p = Some Dir
          then (Inr (), w\<lparr>fs := (\<lambda>q. if prefix p q then None else fs w q)\<rparr>)
          else (Inl OSError, w))"

text \<open>
  \<open>subprocess.Popen\<close> with \<open>shell=True\<close>: the environment supplies the process \<open>proc\<close>;
  spawning fails when the working directory is no directory.
\<close>

definition spawn :: "world \<Rightarrow> string \<Rightarrow> string \<Rightarrow> popen \<Rightarrow> (error + popen) \<times> world" where
  "spawn w command_line cwd proc =
     (if os_path_isdir w cwd
      then (Inr proc, w\<lparr>procs := procs w @ [(proc_pid proc, command_line, cwd)]\<rparr>)
      else (Inl OSError, w))"

text \<open>
  What \<open>get_pid\<close> can return: \<open>None\<close>, an integer, or the text of the pid file when \<open>int\<close>
  rejected it. \<open>truthy\<close> is Python's truth value of such a result.
\<close>

datatype pid_val = PidNone | PidInt int | PidStr string

fun truthy :: "pid_val \<Rightarrow> bool" where
  "truthy PidNone = False"
| "truthy (PidInt n) = (n \<noteq> 0)"
| "truthy (PidStr s) = (s \<noteq> [])"

text \<open>
  Modelled from the spec: \<open>kill_pid\<close> of \<^verbatim>\<open>lwr.util\<close>, which is not among the sources. The
  spec (4.5, step 3) has it send a termination signal to the process (group) of the pid,
  best effort: a delivery failure is swallowed, never raised. The model records the pid in
  \<open>signalled\<close>; a value that is no integer names no process, and nothing is delivered.
\<close>

fun kill_pid :: "world \<Rightarrow> pid_val \<Rightarrow> (error + unit) \<times> world" where
  "kill_pid w (PidInt n) = (Inr (), w\<lparr>signalled := signalled w @ [n]\<rparr>)"
| "kill_pid w (PidStr s) = (Inr (), w)"
| "kill_pid w PidNone = (Inr (), w)"

section \<open>The manager\<close>

text \<open>
  The methods of class \<open>Manager\<close>, in the order of the source. A leading underscore of a
  method name is dropped (\<open>_get_status\<close>, which would clash with \<open>get_status\<close>, is
  \<open>get_status_inner\<close>). A public method takes the world and returns its result with the
  world it leaves; the private helpers that only read are functions of the world. Job ids are
  the strings that \<open>str\<close> returns, so \<open>_get_job_id\<close> is the identity on them.
\<close>

text \<open>
  \<open>setup_staging_directory\<close>: the type of \<open>staging_directory\<close> excludes \<open>None\<close>, so the
  first assertion cannot fail; the second can.
\<close>

definition setup_staging_directory :: "world \<Rightarrow> string \<Rightarrow> (error + unit) \<times> world" where
  "setup_staging_directory w dir =
     (case (if \<not> os_path_exists w dir then os_makedirs w dir else (Inr (), w)) of
        (Inl e, w1) \<Rightarrow> (Inl e, w1)
      | (Inr u, w1) \<Rightarrow>
          if \<not> os_path_isdir w1 dir then (Inl AssertionError, w1)
          else (Inr (), w1\<lparr>staging_directory := dir\<rparr>))"

text \<open>\<open>Manager.__init__\<close>, on the file system and disk of the world given.\<close>

definition manager_init :: "world \<Rightarrow> string \<Rightarrow> (error + unit) \<times> world" where
  "manager_init w dir =
     (case setup_staging_directory w dir of
        (Inl e, w1) \<Rightarrow> (Inl e, w1)
      | (Inr u, w1) \<Rightarrow> (Inr (), w1\<lparr>job_locks := {}\<rparr>))"

definition job_directory :: "world \<Rightarrow> string \<Rightarrow> string" where
  "job_directory w job_id = os_path_join (staging_directory w) job_id"

definition working_directory :: "world \<Rightarrow> string \<Rightarrow> string" where
  "working_directory w job_id = os_path_join (job_directory w job_id) ''working''"

definition inputs_directory :: "world \<Rightarrow> string \<Rightarrow> string" where
  "inputs_directory w job_id = os_path_join (job_directory w job_id) ''inputs''"

definition outputs_directory :: "world \<Rightarrow> string \<Rightarrow> string" where
  "outputs_directory w job_id = os_path_join (job_directory w job_id) ''outputs''"

definition job_file :: "world \<Rightarrow> string \<Rightarrow> string \<Rightarrow> string" where
  "job_file w job_id name = os_path_join (job_directory w job_id) name"

definition read_job_file :: "world \<Rightarrow> string \<Rightarrow> string \<Rightarrow> error + string" where
  "read_job_file w job_id name = read_file w (job_file w job_id name)"

definition write_job_file :: "world \<Rightarrow> string \<Rightarrow> string \<Rightarrow> string \<Rightarrow> (error + unit) \<times> world" where
  "write_job_file w job_id name contents = write_file w (job_file w job_id name) contents"

definition record_submission :: "world \<Rightarrow> string \<Rightarrow> (error + unit) \<times> world" where
  "record_submission w job_id = write_job_file w job_id ''submitted'' ''true''"

definition record_cancel :: "world \<Rightarrow> string \<Rightarrow> (error + unit) \<times> world" where
  "record_cancel w job_id = write_job_file w job_id ''cancelled'' ''true''"

definition has_job_file :: "world \<Rightarrow> string \<Rightarrow> string \<Rightarrow> bool" where
  "has_job_file w job_id filename = os_path_exists w (job_file w job_id filename)"

definition is_cancelled :: "world \<Rightarrow> string \<Rightarrow> bool" where
  "is_cancelled w job_id = has_job_file w job_id ''cancelled''"

definition record_pid :: "world \<Rightarrow> string \<Rightarrow> int \<Rightarrow> (error + unit) \<times> world" where
  "record_pid w job_id pid = write_job_file w job_id ''pid'' (py_str pid)"

text \<open>
  \<open>get_pid\<close>: when the file cannot be read the result is \<open>None\<close>; when \<open>int\<close> raises, the
  bare \<open>except\<close> leaves the text just read in \<open>pid\<close>, and that text is returned.
\<close>

definition get_pid :: "world \<Rightarrow> string \<Rightarrow> pid_val \<times> world" where
  "get_pid w job_id =
     (case read_job_file w job_id ''pid'' of
        Inl e \<Rightarrow> (PidNone, w)
      | Inr s \<Rightarrow> (case py_int s of None \<Rightarrow> (PidStr s, w) | Some n \<Rightarrow> (PidInt n, w)))"

definition get_job_id :: "string \<Rightarrow> string" where
  "get_job_id galaxy_job_id = galaxy_job_id"

definition register_job :: "world \<Rightarrow> string \<Rightarrow> bool \<Rightarrow> string \<times> world" where
  "register_job w job_id new =
     (let job_id1 = (if new then get_job_id job_id else job_id)
      in (job_id1, w\<lparr>job_locks := insert job_id1 (job_locks w)\<rparr>))"

definition setup_job :: "world \<Rightarrow> string \<Rightarrow> string \<Rightarrow> string \<Rightarrow> (error + string) \<times> world" where
  "setup_job w input_job_id tool_id tool_version =
     (case register_job w input_job_id True of
        (job_id, w1) \<Rightarrow>
     (case os_mkdir w1 (job_directory w1 job_id) of
        (Inl e, w2) \<Rightarrow> (Inl e, w2)
      | (Inr u, w2) \<Rightarrow>
     (case os_mkdir w2 (inputs_directory w2 job_id) of
        (Inl e, w3) \<Rightarrow> (Inl e, w3)
      | (Inr u, w3) \<Rightarrow>
     (case os_mkdir w3 (outputs_directory w3 job_id) of
        (Inl e, w4) \<Rightarrow> (Inl e, w4)
      | (Inr u, w4) \<Rightarrow>
     (case os_mkdir w4 (working_directory w4 job_id) of
        (Inl e, w5) \<Rightarrow> (Inl e, w5)
      | (Inr u, w5) \<Rightarrow> (Inr job_id, w5))))))"

definition unregister_job :: "world \<Rightarrow> string \<Rightarrow> (error + unit) \<times> world" where
  "unregister_job w job_id =
     (if job_id \<in> job_locks w then (Inr (), w\<lparr>job_locks := job_locks w - {job_id}\<rparr>)
      else (Inl KeyError, w))"

text \<open>\<open>clean_job_directory\<close>: whatever \<open>rmtree\<close> raises is swallowed.\<close>

definition clean_job_directory :: "world \<Rightarrow> string \<Rightarrow> (error + unit) \<times> world" where
  "clean_job_directory w job_id =
     (let w1 = (if os_path_exists w (job_directory w job_id)
                then snd (shutil_rmtree w (job_directory w job_id)) else w)
      in unregister_job w1 job_id)"

definition check_complete :: "world \<Rightarrow> string \<Rightarrow> bool \<times> world" where
  "check_complete w job_id = (\<not> os_path_exists w (job_file w job_id ''submitted''), w)"

definition return_code :: "world \<Rightarrow> string \<Rightarrow> (error + int) \<times> world" where
  "return_code w job_id =
     (case read_job_file w job_id ''return_code'' of
        Inl e \<Rightarrow> (Inl e, w)
      | Inr s \<Rightarrow> (case py_int s of None \<Rightarrow> (Inl ValueError, w) | Some n \<Rightarrow> (Inr n, w)))"

definition stdout_contents :: "world \<Rightarrow> string \<Rightarrow> (error + string) \<times> world" where
  "stdout_contents w job_id = (read_job_file w job_id ''stdout'', w)"

definition stderr_contents :: "world \<Rightarrow> string \<Rightarrow> (error + string) \<times> world" where
  "stderr_contents w job_id = (read_job_file w job_id ''stderr'', w)"

definition get_status_inner :: "world \<Rightarrow> string \<Rightarrow> string" where
  "get_status_inner w job_id =
     (if is_cancelled w job_id then ''cancelled''
      else if has_job_file w job_id ''pid'' then ''running''
      else if has_job_file w job_id ''submitted'' then ''queued''
      else ''complete'')"

text \<open>\<open>get_status\<close>: looking up the lock of an unknown job id is a \<open>KeyError\<close>.\<close>

definition get_status :: "world \<Rightarrow> string \<Rightarrow> (error + string) \<times> world" where
  "get_status w job_id =
     (if job_id \<in> job_locks w then (Inr (get_status_inner w job_id), w)
      else (Inl KeyError, w))"

definition attempt_remove_job_file :: "world \<Rightarrow> string \<Rightarrow> string \<Rightarrow> world" where
  "attempt_remove_job_file w job_id filename = snd (os_remove w (job_file w job_id filename))"

definition finish_execution :: "world \<Rightarrow> string \<Rightarrow> world" where
  "finish_execution w job_id =
     attempt_remove_job_file (attempt_remove_job_file w job_id ''submitted'') job_id ''pid''"

text \<open>
  \<open>kill\<close>: the \<^verbatim>\<open>with\<close> block is the status check, the read of the pid and, when there is
  none, the cancelled marker and the removal of \<open>submitted\<close>; the signal is sent after it.
\<close>

definition kill :: "world \<Rightarrow> string \<Rightarrow> (error + unit) \<times> world" where
  "kill w job_id =
     (if job_id \<notin> job_locks w then (Inl KeyError, w)
      else if get_status_inner w job_id \<notin> set [''running'', ''queued''] then (Inr (), w)
      else
        (case get_pid w job_id of
           (pid, w1) \<Rightarrow>
        (case (if pid = PidNone
               then (case record_cancel w1 job_id of
                       (Inl e, w2) \<Rightarrow> (Inl e, w2)
                     | (Inr u, w2) \<Rightarrow> (Inr (), attempt_remove_job_file w2 job_id ''submitted''))
               else (Inr (), w1)) of
           (Inl e, w3) \<Rightarrow> (Inl e, w3)
         | (Inr u, w3) \<Rightarrow> if truthy pid then kill_pid w3 pid else (Inr (), w3))))"

text \<open>
  \<open>_monitor_execution\<close>, from the moment \<open>proc.wait()\<close> has returned: the return code is
  written, and the \<^verbatim>\<open>finally\<close> block runs whether or not that raised. An exception of the
  \<^verbatim>\<open>try\<close> block is raised again after the \<^verbatim>\<open>finally\<close> block, unless that block raises itself
  (the job's lock is gone).
\<close>

definition monitor_execution :: "world \<Rightarrow> string \<Rightarrow> popen \<Rightarrow> (error + unit) \<times> world" where
  "monitor_execution w job_id proc =
     (case write_job_file w job_id ''return_code'' (py_str (proc_returncode proc)) of
        (r, w1) \<Rightarrow>
          if job_id \<notin> job_locks w1 then (Inl KeyError, w1)
          else (r, finish_execution w1 job_id))"

text \<open>
  \<open>_run\<close>: \<open>proc\<close> is the process the environment creates. With \<open>async\<close> the monitor is a new
  thread, recorded in \<open>monitors\<close> and run later as \<open>monitor_execution\<close>; without, it runs
  here. (\<open>preexec_fn\<close> only chooses the process group and is left out.)
\<close>

definition run :: "world \<Rightarrow> string \<Rightarrow> string \<Rightarrow> bool \<Rightarrow> popen \<Rightarrow> (error + unit) \<times> world" where
  "run w job_id command_line async proc =
     (if job_id \<notin> job_locks w then (Inl KeyError, w)
      else if is_cancelled w job_id then (Inr (), w)
      else
     (case open_w w (job_file w job_id ''stdout'') of
        (Inl e, w1) \<Rightarrow> (Inl e, w1)
      | (Inr stdout, w1) \<Rightarrow>
     (case open_w w1 (job_file w1 job_id ''stderr'') of
        (Inl e, w2) \<Rightarrow> (Inl e, w2)
      | (Inr stderr, w2) \<Rightarrow>
     (case spawn w2 command_line (working_directory w2 job_id) proc of
        (Inl e, w3) \<Rightarrow> (Inl e, w3)
      | (Inr pr, w3) \<Rightarrow>
     (case record_pid w3 job_id (proc_pid pr) of
        (Inl e, w4) \<Rightarrow> (Inl e, w4)
      | (Inr u, w4) \<Rightarrow>
          if async then (Inr (), w4\<lparr>monitors := monitors w4 @ [(job_id, pr)]\<rparr>)
          else monitor_execution w4 job_id pr)))))"

definition launch :: "world \<Rightarrow> string \<Rightarrow> string \<Rightarrow> popen \<Rightarrow> (error + unit) \<times> world" where
  "launch w job_id command_line proc =
     (case record_submission w job_id of
        (Inl e, w1) \<Rightarrow> (Inl e, w1)
      | (Inr u, w1) \<Rightarrow> run w1 job_id command_line True proc)"

section \<open>Notions used in the statements\<close>

text \<open>
  The status of section 4.2 of the specification, in its words: the first of four cases
  that matches, decided by which of the three markers are present.
\<close>

definition status_by_precedence :: "bool \<Rightarrow> bool \<Rightarrow> bool \<Rightarrow> string" where
  "status_by_precedence cancelled_present pid_present submitted_present =
     (if cancelled_present then ''cancelled''
      else if pid_present then ''running''
      else if submitted_present then ''queued''
      else ''complete'')"

text \<open>
  A job is staged when its directory exists and none of the four marker names is taken by
  a directory: the job directory as \<open>setup_job\<close> creates it and as the manager's own writes
  leave it.
\<close>

definition staged :: "world \<Rightarrow> string \<Rightarrow> bool" where
  "staged w job_id =
     (os_path_isdir w (job_directory w job_id) \<and>
      \<not> os_path_isdir w (job_file w job_id ''submitted'') \<and>
      \<not> os_path_isdir w (job_file w job_id ''cancelled'') \<and>
      \<not> os_path_isdir w (job_file w job_id ''pid'') \<and>
      \<not> os_path_isdir w (job_file w job_id ''return_code''))"

text \<open>A file name that is one path component: no separator, and neither \<open>.\<close> nor \<open>..\<close>.\<close>

definition simple_name :: "string \<Rightarrow> bool" where
  "simple_name n = (CHR ''/'' \<notin> set n \<and> n \<noteq> [] \<and> n \<noteq> ''.'' \<and> n \<noteq> ''..'')"

text \<open>
  The directory in which the files of a job are looked up: the path that the job directory
  resolves to when every component of it, the last too, leads to a directory.
\<close>

definition job_dir :: "world \<Rightarrow> string \<Rightarrow> path option" where
  "job_dir w job_id = walk (fs w) [] (components (job_directory w job_id) @ [''.''])"

text \<open>
  Concrete worlds, each reached by running the manager: an empty file system; a manager on
  the staging directory \<^verbatim>\<open>/s\<close>; job \<^verbatim>\<open>1\<close> set up; job \<^verbatim>\<open>1\<close> launched, as process 42.
\<close>

definition world_empty :: world where
  "world_empty = \<lparr>staging_directory = [], job_locks = {}, fs = Map.empty, disk = NoFault,
     procs = [], monitors = [], signalled = []\<rparr>"

definition proc42 :: popen where
  "proc42 = \<lparr>proc_pid = 42, proc_returncode = 0\<rparr>"

definition world_manager :: world where
  "world_manager = snd (manager_init world_empty ''/s'')"

definition world_setup :: world where
  "world_setup = snd (setup_job world_manager ''1'' ''tool1'' ''1.0.0'')"

definition world_launched :: world where
  "world_launched = snd (launch world_setup ''1'' ''sleep 10000'' proc42)"

text \<open>
  Job \<^verbatim>\<open>1\<close> submitted but with no process yet (\<open>launch\<close> after its first statement), that
  job killed there, the launched job finalized by its monitor, and the launched job on a
  disk that has started to fail.
\<close>

definition world_queued :: world where
  "world_queued = snd (record_submission world_setup ''1'')"

definition world_cancelled :: world where
  "world_cancelled = snd (kill world_queued ''1'')"

definition world_finished :: world where
  "world_finished = snd (monitor_execution world_launched ''1'' proc42)"

definition world_faulty :: world where
  "world_faulty = world_launched\<lparr>disk := WriteFault\<rparr>"

text \<open>
  The finalized job \<^verbatim>\<open>1\<close> launched a second time, as process 43, which returns 7, on a disk
  on which no file can be opened any more.
\<close>

definition proc43 :: popen where
  "proc43 = \<lparr>proc_pid = 43, proc_returncode = 7\<rparr>"

definition world_relaunched :: world where
  "world_relaunched = (snd (launch world_finished ''1'' ''exit 7'' proc43))\<lparr>disk := OpenFault\<rparr>"

section \<open>Properties of the environment and of the helpers\<close>

subsection \<open>Components of a joined path\<close>

lemma split_path_noslash: "CHR ''/'' \<notin> set n \<Longrightarrow> split_path cur n = [cur @ n]"
  by (induction n arbitrary: cur) auto

lemma split_path_slash: "split_path cur (a @ CHR ''/'' # b) = split_path cur a @ split_path [] b"
  by (induction a arbitrary: cur) auto

lemma components_empty: "components [] = []"
  by (simp add: components_def)

lemma components_name: "simple_name n \<Longrightarrow> components n = [n]"
  by (simp add: components_def simple_name_def split_path_noslash)

lemma components_slash_name:
  "simple_name n \<Longrightarrow> components (a @ CHR ''/'' # n) = components a @ [n]"
  by (simp add: components_def simple_name_def split_path_slash split_path_noslash)

lemma components_trailing: "components (b @ [CHR ''/'']) = components b"
  by (simp add: components_def split_path_slash)

lemma components_join:
  assumes sn: "simple_name n"
  shows "components (os_path_join a n) = components a @ [n]"
proof -
  from sn have hd: "hd n \<noteq> CHR ''/''" by (cases n) (auto simp: simple_name_def)
  show ?thesis
  proof (cases "a = []")
    case True
    with sn hd show ?thesis
      by (simp add: os_path_join_def components_name components_empty)
  next
    case False
    show ?thesis
    proof (cases "last a = CHR ''/''")
      case True
      with False have a: "a = butlast a @ [CHR ''/'']"
        by (metis append_butlast_last_id)
      have "os_path_join a n = butlast a @ CHR ''/'' # n"
        using hd True False a by (simp add: os_path_join_def)
      moreover have "components a = components (butlast a)"
        using components_trailing [of "butlast a"] a by simp
      ultimately show ?thesis
        using components_slash_name [OF sn, of "butlast a"] by simp
    next
      case F2: False
      have "os_path_join a n = a @ CHR ''/'' # n"
        using hd F2 False by (simp add: os_path_join_def)
      then show ?thesis using components_slash_name [OF sn] by simp
    qed
  qed
qed

lemma join_ends:
  assumes "simple_name n"
  shows "os_path_join a n \<noteq> []" "last (os_path_join a n) \<noteq> CHR ''/''"
proof -
  from assms have ne: "n \<noteq> []" and ns: "CHR ''/'' \<notin> set n"
    by (simp_all add: simple_name_def)
  then have n: "n \<noteq> []" "last n \<noteq> CHR ''/''" by (metis last_in_set)+
  then show "os_path_join a n \<noteq> []" by (simp add: os_path_join_def)
  from n show "last (os_path_join a n) \<noteq> CHR ''/''" by (simp add: os_path_join_def)
qed

subsection \<open>Walks\<close>

lemma walk_name:
  "simple_name n \<Longrightarrow>
   walk f cur (cs @ [n]) = map_option (\<lambda>d. d @ [n]) (walk f cur (cs @ [''.'']))"
proof (induction cs arbitrary: cur)
  case Nil
  then show ?case by (auto simp: simple_name_def)
next
  case (Cons c cs)
  then show ?case by (simp add: Let_def)
qed

lemma walk_dot:
  "is_dir_at f cur \<Longrightarrow>
   walk f cur (cs @ [''.'']) =
     (case walk f cur cs of None \<Rightarrow> None | Some d \<Rightarrow> if is_dir_at f d then Some d else None)"
proof (induction cs arbitrary: cur)
  case Nil
  then show ?case by simp
next
  case (Cons c cs)
  then show ?case by (cases cs) (auto simp: Let_def)
qed

lemma walk_cong:
  "(\<And>q. is_dir_at g q = is_dir_at f q) \<Longrightarrow> walk g cur cs = walk f cur cs"
  by (induction cs arbitrary: cur) (auto simp: Let_def)

lemma walk_mono:
  "(\<And>q. is_dir_at g q \<Longrightarrow> is_dir_at f q) \<Longrightarrow> walk g cur cs = Some r \<Longrightarrow> walk f cur cs = Some r"
  by (induction cs arbitrary: cur) (auto simp: Let_def split: if_splits)

lemma is_dir_at_node_at: "is_dir_at (fs w) p = (node_at w p = Some Dir)"
  by (simp add: is_dir_at_def node_at_def)

lemma resolve_join:
  assumes "simple_name n"
  shows "resolve w (os_path_join a n) =
           map_option (\<lambda>d. d @ [n]) (walk (fs w) [] (components a @ [''.'']))"
  using assms join_ends [OF assms, of a]
  by (simp add: resolve_def components_join walk_name)

lemma resolve_dir:
  assumes "resolve w a = Some d" and "node_at w d = Some Dir"
  shows "walk (fs w) [] (components a @ [''.'']) = Some d"
proof -
  from assms(1) have ne: "a \<noteq> []" by (auto simp: resolve_def split: if_splits)
  have root: "is_dir_at (fs w) []" by (simp add: is_dir_at_def)
  show ?thesis
  proof (cases "last a = CHR ''/'' \<and> components a \<noteq> []")
    case True
    with assms(1) ne show ?thesis by (simp add: resolve_def)
  next
    case False
    with assms(1) ne have "walk (fs w) [] (components a) = Some d"
      by (auto simp: resolve_def)
    with assms(2) show ?thesis
      by (simp add: walk_dot [OF root] is_dir_at_node_at)
  qed
qed

lemma walk_dot_dir:
  assumes "walk (fs w) [] (components a @ [''.'']) = Some d" and "a \<noteq> []"
  shows "resolve w a = Some d \<and> node_at w d = Some Dir"
proof -
  have root: "is_dir_at (fs w) []" by (simp add: is_dir_at_def)
  from assms(1) have "walk (fs w) [] (components a) = Some d" and d: "is_dir_at (fs w) d"
    by (auto simp: walk_dot [OF root] split: option.splits if_splits)
  with assms show ?thesis
    by (auto simp: resolve_def is_dir_at_node_at)
qed

subsection \<open>\<open>int\<close> reads back what \<open>str\<close> wrote\<close>

lemma digit_cases: "n < 10 \<Longrightarrow> n \<in> {0, 1, 2, 3, 4, 5, 6, 7, 8, 9::nat}"
  by auto

lemma digit_char_props:
  assumes "n < 10"
  shows "is_digit (digit_char n)" "digit_val (digit_char n) = n" "\<not> is_space (digit_char n)"
    "digit_char n \<noteq> CHR ''-''" "digit_char n \<noteq> CHR ''+''"
  using digit_cases [OF assms]
  by (auto simp: digit_char_def is_digit_def digit_val_def is_space_def)

lemma str_nat_digits: "str_nat n \<noteq> [] \<and> list_all is_digit (str_nat n)"
proof (induction n rule: str_nat.induct)
  case (1 n)
  show ?case
  proof (cases "n < 10")
    case True
    then show ?thesis by (simp add: str_nat.simps [of n] digit_char_props)
  next
    case False
    with 1 show ?thesis by (simp add: str_nat.simps [of n] digit_char_props)
  qed
qed

lemma str_nat_value: "foldl (\<lambda>acc c. acc * 10 + digit_val c) 0 (str_nat n) = n"
proof (induction n rule: str_nat.induct)
  case (1 n)
  show ?case
  proof (cases "n < 10")
    case True
    then show ?thesis by (simp add: str_nat.simps [of n] digit_char_props)
  next
    case False
    with 1 show ?thesis by (simp add: str_nat.simps [of n] digit_char_props)
  qed
qed

lemma parse_nat_str_nat: "parse_nat (str_nat n) = Some n"
  using str_nat_digits [of n] by (simp add: parse_nat_def str_nat_value)

lemma digit_not_space: "is_digit c \<Longrightarrow> \<not> is_space c"
  by (auto simp: is_digit_def is_space_def)

lemma strip_id:
  assumes "s \<noteq> []" "\<not> is_space (hd s)" "\<not> is_space (last s)"
  shows "strip s = s"
proof -
  from assms have "dropWhile is_space s = s" by (cases s) auto
  moreover from assms have "dropWhile is_space (rev s) = rev s"
    by (cases "rev s") (auto simp: hd_rev)
  ultimately show ?thesis by (simp add: strip_def)
qed

lemma str_nat_ends:
  "is_digit (hd (str_nat n))" "is_digit (last (str_nat n))"
  using str_nat_digits [of n] by (cases "str_nat n"; simp add: list_all_iff)+

lemma py_int_py_str: "py_int (py_str i) = Some i"
proof (cases "i < 0")
  case True
  let ?s = "str_nat (nat (- i))"
  have ne: "?s \<noteq> []" using str_nat_digits by simp
  have "\<not> is_space (last ?s)" by (simp add: digit_not_space str_nat_ends)
  then have "strip (CHR ''-'' # ?s) = CHR ''-'' # ?s"
    using ne by (intro strip_id) (simp_all add: is_space_def)
  with True show ?thesis
    by (simp add: py_int_def py_str_def parse_nat_str_nat)
next
  case False
  let ?s = "str_nat (nat i)"
  have ne: "?s \<noteq> []" using str_nat_digits by simp
  then obtain c cs where s: "?s = c # cs" by (cases ?s) auto
  have st: "strip ?s = ?s"
    using ne by (intro strip_id) (simp_all add: digit_not_space str_nat_ends)
  have "is_digit c" using str_nat_ends(1) [of "nat i"] s by simp
  then have c: "c \<noteq> CHR ''-''" "c \<noteq> CHR ''+''" by (auto simp: is_digit_def)
  have "parse_nat (c # cs) = Some (nat i)" using parse_nat_str_nat [of "nat i"] s by simp
  with False st s c show ?thesis
    by (simp add: py_int_def py_str_def)
qed

subsection \<open>The directory of a job\<close>

lemma simple_names [simp]:
  "simple_name ''submitted''" "simple_name ''cancelled''" "simple_name ''pid''"
  "simple_name ''return_code''" "simple_name ''stdout''" "simple_name ''stderr''"
  "simple_name ''inputs''" "simple_name ''outputs''" "simple_name ''working''"
  by (simp_all add: simple_name_def)

lemma job_file_path:
  "simple_name n \<Longrightarrow>
   resolve w (job_file w job_id n) = map_option (\<lambda>d. d @ [n]) (job_dir w job_id)"
  by (simp add: job_file_def job_dir_def resolve_join)

lemma job_dir_isdir:
  assumes "os_path_isdir w (job_directory w job_id)"
  shows "\<exists>d. job_dir w job_id = Some d \<and> resolve w (job_directory w job_id) = Some d"
  using assms resolve_dir [of w "job_directory w job_id"]
  by (auto simp: os_path_isdir_def job_dir_def split: option.splits)

lemma job_dir_cong:
  assumes "staging_directory w' = staging_directory w"
    and "\<And>q. is_dir_at (fs w') q = is_dir_at (fs w) q"
  shows "job_dir w' job_id = job_dir w job_id"
  using assms(1) walk_cong [of "fs w'" "fs w", OF assms(2)]
  by (simp add: job_dir_def job_directory_def)

lemma job_directory_update [simp]:
  "job_directory (w\<lparr>fs := f\<rparr>) job_id = job_directory w job_id"
  "job_directory (w\<lparr>job_locks := l\<rparr>) job_id = job_directory w job_id"
  "job_directory (w\<lparr>signalled := sg\<rparr>) job_id = job_directory w job_id"
  "job_directory (w\<lparr>procs := ps\<rparr>) job_id = job_directory w job_id"
  "job_directory (w\<lparr>monitors := ms\<rparr>) job_id = job_directory w job_id"
  by (simp_all add: job_directory_def)

lemma job_file_update [simp]:
  "job_file (w\<lparr>fs := f\<rparr>) job_id n = job_file w job_id n"
  "job_file (w\<lparr>job_locks := l\<rparr>) job_id n = job_file w job_id n"
  "job_file (w\<lparr>signalled := sg\<rparr>) job_id n = job_file w job_id n"
  "job_file (w\<lparr>procs := ps\<rparr>) job_id n = job_file w job_id n"
  "job_file (w\<lparr>monitors := ms\<rparr>) job_id n = job_file w job_id n"
  by (simp_all add: job_file_def)

lemma job_dir_update [simp]:
  "job_dir (w\<lparr>job_locks := l\<rparr>) job_id = job_dir w job_id"
  "job_dir (w\<lparr>signalled := sg\<rparr>) job_id = job_dir w job_id"
  "job_dir (w\<lparr>procs := ps\<rparr>) job_id = job_dir w job_id"
  "job_dir (w\<lparr>monitors := ms\<rparr>) job_id = job_dir w job_id"
  by (simp_all add: job_dir_def)

text \<open>Writing or removing a regular file changes no lookup.\<close>

lemma job_dir_put_file:
  "f p \<noteq> Some Dir \<Longrightarrow> fs w = f \<Longrightarrow> job_dir (w\<lparr>fs := f(p \<mapsto> File c)\<rparr>) job_id = job_dir w job_id"
  by (rule job_dir_cong) (auto simp: is_dir_at_def)

lemma job_dir_drop_file:
  "f p \<noteq> Some Dir \<Longrightarrow> fs w = f \<Longrightarrow> job_dir (w\<lparr>fs := f(p := None)\<rparr>) job_id = job_dir w job_id"
  by (rule job_dir_cong) (auto simp: is_dir_at_def)

subsection \<open>What the helpers do to the files of a job\<close>

lemma has_job_file_fs:
  "simple_name n \<Longrightarrow>
   has_job_file w job_id n =
     (case job_dir w job_id of None \<Rightarrow> False | Some d \<Rightarrow> fs w (d @ [n]) \<noteq> None)"
  by (simp add: has_job_file_def os_path_exists_def node_at_def job_file_path split: option.splits)

lemma isdir_job_file_fs:
  "simple_name n \<Longrightarrow>
   os_path_isdir w (job_file w job_id n) =
     (case job_dir w job_id of None \<Rightarrow> False | Some d \<Rightarrow> fs w (d @ [n]) = Some Dir)"
  by (simp add: os_path_isdir_def node_at_def job_file_path split: option.splits)

lemma read_job_file_fs:
  "simple_name n \<Longrightarrow>
   read_job_file w job_id n =
     (case job_dir w job_id of
        None \<Rightarrow> Inl IOError
      | Some d \<Rightarrow>
          (case fs w (d @ [n]) of
             Some (File c) \<Rightarrow> Inr c | Some Dir \<Rightarrow> Inl IOError | None \<Rightarrow> Inl IOError))"
  by (simp add: read_job_file_def read_file_def node_at_def job_file_path split: option.splits)

lemma write_job_file_fs:
  assumes "simple_name n"
  shows "write_job_file w job_id n c =
     (case job_dir w job_id of
        None \<Rightarrow> (Inl IOError, w)
      | Some d \<Rightarrow>
          if disk w = OpenFault \<or> fs w (d @ [n]) = Some Dir then (Inl IOError, w)
          else if disk w = WriteFault
          then (Inl IOError, w\<lparr>fs := (fs w)(d @ [n] \<mapsto> File [])\<rparr>)
          else (Inr (), w\<lparr>fs := (fs w)(d @ [n] \<mapsto> File c)\<rparr>))"
  using assms
  by (simp add: write_job_file_def write_file_def open_w_def node_at_def job_file_path
      split: option.splits)

lemma attempt_remove_job_file_fs:
  assumes "simple_name n"
  shows "attempt_remove_job_file w job_id n =
     (case job_dir w job_id of
        None \<Rightarrow> w
      | Some d \<Rightarrow>
          if fs w (d @ [n]) = Some Dir then w
          else w\<lparr>fs := (fs w)(d @ [n] := None)\<rparr>)"
proof (cases "job_dir w job_id")
  case None
  with assms show ?thesis
    by (simp add: attempt_remove_job_file_def os_remove_def job_file_path)
next
  case (Some d)
  show ?thesis
  proof (cases "fs w (d @ [n])")
    case None
    then have "(fs w)(d @ [n] := None) = fs w" by auto
    with None Some assms show ?thesis
      by (simp add: attempt_remove_job_file_def os_remove_def node_at_def job_file_path)
  next
    case (Some a)
    with \<open>job_dir w job_id = Some d\<close> assms show ?thesis
      by (cases a) (simp_all add: attempt_remove_job_file_def os_remove_def node_at_def job_file_path)
  qed
qed

lemma kill_noop:
  assumes "job_id \<in> job_locks w"
    and "get_status_inner w job_id \<noteq> ''running''"
    and "get_status_inner w job_id \<noteq> ''queued''"
  shows "kill w job_id = (Inr (), w)"
  using assms by (simp add: kill_def)

lemma py_int_empty: "py_int [] = None"
  by (simp add: py_int_def strip_def)

lemma get_pid_record_pid:
  assumes "record_pid w job_id p = (Inr (), w')"
  shows "get_pid w' job_id = (PidInt p, w')"
proof -
  from assms obtain d where jd: "job_dir w job_id = Some d"
    and nd: "fs w (d @ [''pid'']) \<noteq> Some Dir"
    and w': "w' = w\<lparr>fs := (fs w)(d @ [''pid''] \<mapsto> File (py_str p))\<rparr>"
    by (auto simp: record_pid_def write_job_file_fs split: option.splits if_splits)
  have "job_dir w' job_id = Some d"
    unfolding w' using jd nd job_dir_put_file [of "fs w" "d @ [''pid'']" w] by simp
  then show ?thesis
    using w' by (simp add: get_pid_def read_job_file_fs py_int_py_str)
qed

lemma finish_execution_fs:
  assumes "job_dir w job_id = Some d"
    and "fs w (d @ [''submitted'']) \<noteq> Some Dir"
    and "fs w (d @ [''pid'']) \<noteq> Some Dir"
  shows "finish_execution w job_id =
     w\<lparr>fs := ((fs w)(d @ [''submitted''] := None))(d @ [''pid''] := None)\<rparr>"
    and "job_dir (finish_execution w job_id) job_id = Some d"
proof -
  let ?w1 = "w\<lparr>fs := (fs w)(d @ [''submitted''] := None)\<rparr>"
  let ?w2 = "w\<lparr>fs := ((fs w)(d @ [''submitted''] := None))(d @ [''pid''] := None)\<rparr>"
  have a: "attempt_remove_job_file w job_id ''submitted'' = ?w1"
    using assms by (simp add: attempt_remove_job_file_fs)
  have j1: "job_dir ?w1 job_id = Some d"
    using assms job_dir_drop_file [of "fs w" "d @ [''submitted'']" w] by simp
  then show e: "finish_execution w job_id = ?w2"
    using assms a by (simp add: finish_execution_def attempt_remove_job_file_fs)
  have "fs ?w1 (d @ [''pid'']) \<noteq> Some Dir" using assms by simp
  then have "job_dir (?w1\<lparr>fs := (fs ?w1)(d @ [''pid''] := None)\<rparr>) job_id = job_dir ?w1 job_id"
    by (intro job_dir_drop_file) simp_all
  with j1 e show "job_dir (finish_execution w job_id) job_id = Some d" by simp
qed

lemma write_job_file_cases:
  assumes "simple_name n" and "job_dir w job_id = Some d"
  shows "\<exists>r g. write_job_file w job_id n c = (r, w\<lparr>fs := (fs w)(d @ [n] := g)\<rparr>) \<and>
           (g = fs w (d @ [n]) \<or> (fs w (d @ [n]) \<noteq> Some Dir \<and> (\<exists>x. g = Some (File x))))"
proof (cases "disk w = OpenFault \<or> fs w (d @ [n]) = Some Dir")
  case True
  let ?p = "d @ [n]"
  have "(fs w)(?p := fs w ?p) = fs w" by simp
  then have "w\<lparr>fs := (fs w)(?p := fs w ?p)\<rparr> = w" by simp
  moreover have "write_job_file w job_id n c = (Inl IOError, w)"
    using True assms by (simp add: write_job_file_fs)
  ultimately have "write_job_file w job_id n c = (Inl IOError, w\<lparr>fs := (fs w)(?p := fs w ?p)\<rparr>)"
    by simp
  then show ?thesis by blast
next
  case False
  show ?thesis
  proof (cases "disk w = WriteFault")
    case True
    with False assms have "write_job_file w job_id n c =
        (Inl IOError, w\<lparr>fs := (fs w)(d @ [n] := Some (File []))\<rparr>)"
      by (simp add: write_job_file_fs)
    with False show ?thesis by blast
  next
    case F2: False
    with False assms have "write_job_file w job_id n c =
        (Inr (), w\<lparr>fs := (fs w)(d @ [n] := Some (File c))\<rparr>)"
      by (simp add: write_job_file_fs)
    with False show ?thesis by blast
  qed
qed

lemma monitor_execution_fs:
  assumes reg: "job_id \<in> job_locks w"
    and jd: "job_dir w job_id = Some d"
    and sub: "fs w (d @ [''submitted'']) \<noteq> Some Dir"
    and pid: "fs w (d @ [''pid'']) \<noteq> Some Dir"
  shows "\<exists>g. snd (monitor_execution w job_id proc) =
     w\<lparr>fs := (((fs w)(d @ [''return_code''] := g))
                 (d @ [''submitted''] := None))(d @ [''pid''] := None)\<rparr> \<and>
     job_dir (snd (monitor_execution w job_id proc)) job_id = Some d"
proof -
  obtain r g where wr: "write_job_file w job_id ''return_code'' (py_str (proc_returncode proc)) =
      (r, w\<lparr>fs := (fs w)(d @ [''return_code''] := g)\<rparr>)"
    and g: "g = fs w (d @ [''return_code'']) \<or>
      (fs w (d @ [''return_code'']) \<noteq> Some Dir \<and> (\<exists>x. g = Some (File x)))"
    using write_job_file_cases [OF simple_names(4) jd] by blast
  let ?w1 = "w\<lparr>fs := (fs w)(d @ [''return_code''] := g)\<rparr>"
  have "\<And>q. is_dir_at (fs ?w1) q = is_dir_at (fs w) q"
    using g by (auto simp: is_dir_at_def)
  then have jd1: "job_dir ?w1 job_id = Some d"
    using jd job_dir_cong [of ?w1 w job_id] by simp
  have s1: "fs ?w1 (d @ [''submitted'']) \<noteq> Some Dir" and p1: "fs ?w1 (d @ [''pid'']) \<noteq> Some Dir"
    using sub pid by simp_all
  have m: "monitor_execution w job_id proc = (r, finish_execution ?w1 job_id)"
    using wr reg by (simp add: monitor_execution_def)
  have "finish_execution ?w1 job_id =
      w\<lparr>fs := (((fs w)(d @ [''return_code''] := g))(d @ [''submitted''] := None))(d @ [''pid''] := None)\<rparr>"
    using finish_execution_fs(1) [OF jd1 s1 p1] by simp
  moreover have "job_dir (finish_execution ?w1 job_id) job_id = Some d"
    by (rule finish_execution_fs(2) [OF jd1 s1 p1])
  ultimately show ?thesis unfolding m by auto
qed

lemma return_code_fs:
  "fst (return_code w job_id) =
     (case job_dir w job_id of
        None \<Rightarrow> Inl IOError
      | Some d \<Rightarrow>
          (case fs w (d @ [''return_code'']) of
             None \<Rightarrow> Inl IOError
           | Some Dir \<Rightarrow> Inl IOError
           | Some (File c) \<Rightarrow> (case py_int c of None \<Rightarrow> Inl ValueError | Some n \<Rightarrow> Inr n)))"
  by (simp add: return_code_def read_job_file_fs split: option.splits node.splits)

subsection \<open>\<open>os.mkdir\<close>\<close>

lemma os_mkdir_cases:
  "os_mkdir w s = (Inl OSError, w) \<or>
   (\<exists>p. resolve_new w s = Some p \<and> node_at w p = None \<and>
        os_mkdir w s = (Inr (), w\<lparr>fs := (fs w)(p \<mapsto> Dir)\<rparr>))"
  by (auto simp: os_mkdir_def split: option.splits)

lemma isdir_grows:
  assumes d: "os_path_isdir w s"
    and st: "staging_directory w' = staging_directory w"
    and sub: "\<And>q. is_dir_at (fs w) q \<Longrightarrow> is_dir_at (fs w') q"
  shows "os_path_isdir w' s"
proof -
  from d obtain p where r: "resolve w s = Some p" and n: "node_at w p = Some Dir"
    by (auto simp: os_path_isdir_def split: option.splits)
  from r have ne: "s \<noteq> []" by (auto simp: resolve_def split: if_splits)
  have "walk (fs w) [] (components s @ [''.'']) = Some p"
    using r n by (rule resolve_dir)
  then have "walk (fs w') [] (components s @ [''.'']) = Some p"
    using sub by (rule walk_mono [rotated])
  then have "resolve w' s = Some p \<and> node_at w' p = Some Dir"
    using ne by (rule walk_dot_dir)
  then show ?thesis by (simp add: os_path_isdir_def)
qed

lemma os_mkdir_keeps:
  "job_locks (snd (os_mkdir w s)) = job_locks w"
  "staging_directory (snd (os_mkdir w s)) = staging_directory w"
  "os_path_isdir w t \<Longrightarrow> os_path_isdir (snd (os_mkdir w s)) t"
  "fst (os_mkdir w s) = Inr () \<or> fst (os_mkdir w s) = Inl OSError"
proof -
  show "job_locks (snd (os_mkdir w s)) = job_locks w"
    using os_mkdir_cases [of w s] by auto
  show "staging_directory (snd (os_mkdir w s)) = staging_directory w"
    using os_mkdir_cases [of w s] by auto
  show "fst (os_mkdir w s) = Inr () \<or> fst (os_mkdir w s) = Inl OSError"
    using os_mkdir_cases [of w s] by auto
  show "os_path_isdir (snd (os_mkdir w s)) t" if t: "os_path_isdir w t"
  proof -
    from os_mkdir_cases [of w s] show ?thesis
    proof
      assume "os_mkdir w s = (Inl OSError, w)"
      with t show ?thesis by simp
    next
      assume "\<exists>p. resolve_new w s = Some p \<and> node_at w p = None \<and>
        os_mkdir w s = (Inr (), w\<lparr>fs := (fs w)(p \<mapsto> Dir)\<rparr>)"
      then obtain p where m: "os_mkdir w s = (Inr (), w\<lparr>fs := (fs w)(p \<mapsto> Dir)\<rparr>)" by blast
      have "os_path_isdir (w\<lparr>fs := (fs w)(p \<mapsto> Dir)\<rparr>) t"
        using t by (rule isdir_grows) (auto simp: is_dir_at_def)
      with m show ?thesis by simp
    qed
  qed
qed

lemma os_mkdir_creates:
  assumes "fst (os_mkdir w s) = Inr ()"
  shows "os_path_isdir (snd (os_mkdir w s)) s"
proof -
  from assms os_mkdir_cases [of w s] obtain p where r: "resolve_new w s = Some p"
    and m: "os_mkdir w s = (Inr (), w\<lparr>fs := (fs w)(p \<mapsto> Dir)\<rparr>)" by auto
  let ?w' = "w\<lparr>fs := (fs w)(p \<mapsto> Dir)\<rparr>"
  from r have ne: "s \<noteq> []" and wk: "walk (fs w) [] (components s) = Some p"
    by (auto simp: resolve_new_def split: if_splits)
  have "walk (fs ?w') [] (components s) = Some p"
    using _ wk by (rule walk_mono) (auto simp: is_dir_at_def)
  moreover have "is_dir_at (fs ?w') []" "is_dir_at (fs ?w') p" by (simp_all add: is_dir_at_def)
  ultimately have "walk (fs ?w') [] (components s @ [''.'']) = Some p"
    by (simp add: walk_dot)
  then have "resolve ?w' s = Some p \<and> node_at ?w' p = Some Dir"
    using ne by (rule walk_dot_dir)
  with m show ?thesis by (simp add: os_path_isdir_def)
qed

lemma os_mkdir_locks: "os_mkdir (w\<lparr>job_locks := l\<rparr>) s =
   (fst (os_mkdir w s), (snd (os_mkdir w s))\<lparr>job_locks := l\<rparr>)"
  by (simp add: os_mkdir_def resolve_new_def node_at_def split: option.splits)

section \<open>The claims\<close>

subsection \<open>C1: kill before launch\<close>

text \<open>
  C1, as amended. The claim has \<open>kill\<close> on a registered job that was never launched
  leave the status \<open>cancelled\<close>. The code returns early for every status other than
  \<open>running\<close> and \<open>queued\<close>, and a job without any marker has the status \<open>complete\<close>. So
  for a registered job with no \<open>submitted\<close>, \<open>pid\<close> or \<open>cancelled\<close> marker, \<open>kill\<close> returns
  without raising and leaves the world as it was: afterwards \<open>get_status\<close> returns
  \<open>complete\<close>, \<open>check_complete\<close> returns true, and neither a \<open>pid\<close> nor a \<open>cancelled\<close>
  marker exists.
\<close>

theorem kill_before_launch:
  assumes "job_id \<in> job_locks w"
    and "\<not> has_job_file w job_id ''submitted''"
    and "\<not> has_job_file w job_id ''pid''"
    and "\<not> has_job_file w job_id ''cancelled''"
  shows "kill w job_id = (Inr (), w) \<and>
         get_status (snd (kill w job_id)) job_id = (Inr ''complete'', w) \<and>
         check_complete (snd (kill w job_id)) job_id = (True, w) \<and>
         \<not> has_job_file (snd (kill w job_id)) job_id ''pid'' \<and>
         \<not> has_job_file (snd (kill w job_id)) job_id ''cancelled''"
proof -
  from assms have st: "get_status_inner w job_id = ''complete''"
    by (simp add: get_status_inner_def is_cancelled_def)
  then have k: "kill w job_id = (Inr (), w)"
    using assms(1) by (simp add: kill_noop)
  show ?thesis
    using k st assms by (simp add: get_status_def check_complete_def has_job_file_def)
qed

text \<open>
  The theorem at the job set up in \<open>world_setup\<close>, which was never launched.
\<close>

theorem kill_before_launch_witness:
  "''1'' \<in> job_locks world_setup \<and>
   \<not> has_job_file world_setup ''1'' ''submitted'' \<and>
   \<not> has_job_file world_setup ''1'' ''pid'' \<and>
   \<not> has_job_file world_setup ''1'' ''cancelled'' \<and>
   kill world_setup ''1'' = (Inr (), world_setup) \<and>
   get_status (snd (kill world_setup ''1'')) ''1'' = (Inr ''complete'', world_setup)"
proof -
  have h1: "''1'' \<in> job_locks world_setup" by code_simp
  have h2: "\<not> has_job_file world_setup ''1'' ''submitted''" by code_simp
  have h3: "\<not> has_job_file world_setup ''1'' ''pid''" by code_simp
  have h4: "\<not> has_job_file world_setup ''1'' ''cancelled''" by code_simp
  from kill_before_launch [OF h1 h2 h3 h4] h1 h2 h3 h4 show ?thesis by blast
qed

text \<open>
  C1 as stated fails: job \<^verbatim>\<open>1\<close> is registered and has no marker, \<open>kill\<close> returns normally,
  and the status afterwards is \<open>complete\<close>, not \<open>cancelled\<close>.
\<close>

theorem kill_before_launch_counterexample:
  "''1'' \<in> job_locks world_setup \<and>
   \<not> has_job_file world_setup ''1'' ''submitted'' \<and>
   \<not> has_job_file world_setup ''1'' ''pid'' \<and>
   \<not> has_job_file world_setup ''1'' ''cancelled'' \<and>
   fst (kill world_setup ''1'') = Inr () \<and>
   fst (get_status (snd (kill world_setup ''1'')) ''1'') = Inr ''complete'' \<and>
   fst (get_status (snd (kill world_setup ''1'')) ''1'') \<noteq> Inr ''cancelled''"
  by code_simp

subsection \<open>C2: operations after clean\_job\_directory\<close>

text \<open>
  C2, as amended. The claim has every operation fail on a job id after
  \<open>clean_job_directory\<close>. \<open>check_complete\<close> only tests whether the \<open>submitted\<close> file
  exists and cannot fail. For a registered job whose directory exists,
  \<open>clean_job_directory\<close> returns normally, and afterwards \<open>get_status\<close> and \<open>kill\<close> raise
  \<open>KeyError\<close> (the lock of the job is gone), \<open>return_code\<close>, \<open>stdout_contents\<close> and
  \<open>stderr_contents\<close> raise \<open>IOError\<close> (the files are gone), whatever the state of the job
  was, while \<open>check_complete\<close> returns true.
\<close>

theorem after_clean_job_directory:
  assumes reg: "job_id \<in> job_locks w"
    and dir: "os_path_isdir w (job_directory w job_id)"
  shows "fst (clean_job_directory w job_id) = Inr () \<and>
         fst (get_status (snd (clean_job_directory w job_id)) job_id) = Inl KeyError \<and>
         fst (kill (snd (clean_job_directory w job_id)) job_id) = Inl KeyError \<and>
         fst (return_code (snd (clean_job_directory w job_id)) job_id) = Inl IOError \<and>
         fst (stdout_contents (snd (clean_job_directory w job_id)) job_id) = Inl IOError \<and>
         fst (stderr_contents (snd (clean_job_directory w job_id)) job_id) = Inl IOError \<and>
         fst (check_complete (snd (clean_job_directory w job_id)) job_id) = True"
proof -
  from dir obtain d where jd: "job_dir w job_id = Some d"
    and rs: "resolve w (job_directory w job_id) = Some d"
    using job_dir_isdir by blast
  from dir rs have nd: "node_at w d = Some Dir"
    by (simp add: os_path_isdir_def)
  let ?f = "\<lambda>q. if prefix d q then None else fs w q"
  let ?w' = "w\<lparr>fs := ?f, job_locks := job_locks w - {job_id}\<rparr>"
  have c: "clean_job_directory w job_id = (Inr (), ?w')"
    using reg rs nd
    by (simp add: clean_job_directory_def os_path_exists_def shutil_rmtree_def unregister_job_def)
  have sub: "\<And>q. is_dir_at ?f q \<Longrightarrow> is_dir_at (fs w) q"
    by (auto simp: is_dir_at_def split: if_splits)
  have gone: "job_dir ?w' job_id = None \<or> (job_dir ?w' job_id = Some d \<and> (\<forall>n. fs ?w' (d @ [n]) = None))"
  proof (cases "job_dir ?w' job_id")
    case None
    then show ?thesis by simp
  next
    case (Some d')
    then have "walk ?f [] (components (job_directory w job_id) @ [''.'']) = Some d'"
      by (simp add: job_dir_def)
    then have "walk (fs w) [] (components (job_directory w job_id) @ [''.'']) = Some d'"
      using sub by (rule walk_mono [rotated])
    with jd have "d' = d" by (simp add: job_dir_def)
    with Some show ?thesis by simp
  qed
  have "fst (check_complete ?w' job_id) = True"
    using gone has_job_file_fs [of "''submitted''" ?w' job_id]
    by (auto simp: check_complete_def has_job_file_def)
  moreover have "fst (return_code ?w' job_id) = Inl IOError"
    using gone by (auto simp: return_code_fs)
  moreover have "fst (stdout_contents ?w' job_id) = Inl IOError"
    using gone by (auto simp: stdout_contents_def read_job_file_fs)
  moreover have "fst (stderr_contents ?w' job_id) = Inl IOError"
    using gone by (auto simp: stderr_contents_def read_job_file_fs)
  moreover have "fst (get_status ?w' job_id) = Inl KeyError"
    by (simp add: get_status_def)
  moreover have "fst (kill ?w' job_id) = Inl KeyError"
    by (simp add: kill_def)
  ultimately show ?thesis unfolding c by simp
qed

text \<open>
  The theorem at the running job of \<open>world_launched\<close>.
\<close>

theorem after_clean_job_directory_witness:
  "''1'' \<in> job_locks world_launched \<and>
   os_path_isdir world_launched (job_directory world_launched ''1'') \<and>
   fst (get_status (snd (clean_job_directory world_launched ''1'')) ''1'') = Inl KeyError \<and>
   fst (return_code (snd (clean_job_directory world_launched ''1'')) ''1'') = Inl IOError"
proof -
  have h1: "''1'' \<in> job_locks world_launched" by code_simp
  have h2: "os_path_isdir world_launched (job_directory world_launched ''1'')" by code_simp
  from after_clean_job_directory [OF h1 h2] h1 h2 show ?thesis by blast
qed

text \<open>
  C2 as stated fails: the job is running, \<open>clean_job_directory\<close> completes, and
  \<open>check_complete\<close> on the same id then returns true instead of failing.
\<close>

theorem after_clean_job_directory_counterexample:
  "fst (get_status world_launched ''1'') = Inr ''running'' \<and>
   fst (clean_job_directory world_launched ''1'') = Inr () \<and>
   fst (check_complete (snd (clean_job_directory world_launched ''1'')) ''1'') = True"
  by code_simp

subsection \<open>C3: kill of a job that has no pid yet\<close>

text \<open>
  C3. For a registered, staged job whose status is \<open>running\<close> or \<open>queued\<close> and for which
  \<open>get_pid\<close> finds no pid, on a disk without fault, \<open>kill\<close> returns normally, having
  written the \<open>cancelled\<close> marker and removed the \<open>submitted\<close> marker (both inside its
  \<^verbatim>\<open>with\<close> block, which the model runs as one step) and having sent no signal; afterwards
  \<open>get_status\<close> returns \<open>cancelled\<close> and \<open>check_complete\<close> returns true.
\<close>

theorem kill_unstarted_job:
  assumes reg: "job_id \<in> job_locks w"
    and st: "fst (get_status w job_id) = Inr ''running'' \<or> fst (get_status w job_id) = Inr ''queued''"
    and nopid: "fst (get_pid w job_id) = PidNone"
    and stg: "staged w job_id"
    and dk: "disk w = NoFault"
  shows "fst (kill w job_id) = Inr () \<and>
         has_job_file (snd (kill w job_id)) job_id ''cancelled'' \<and>
         \<not> has_job_file (snd (kill w job_id)) job_id ''submitted'' \<and>
         fst (get_status (snd (kill w job_id)) job_id) = Inr ''cancelled'' \<and>
         fst (check_complete (snd (kill w job_id)) job_id) = True \<and>
         signalled (snd (kill w job_id)) = signalled w"
proof -
  from stg obtain d where jd: "job_dir w job_id = Some d"
    using job_dir_isdir by (auto simp: staged_def)
  let ?w1 = "w\<lparr>fs := (fs w)(d @ [''cancelled''] \<mapsto> File ''true'')\<rparr>"
  let ?w2 = "w\<lparr>fs := ((fs w)(d @ [''cancelled''] \<mapsto> File ''true''))(d @ [''submitted''] := None)\<rparr>"
  from st reg have s: "get_status_inner w job_id = ''running'' \<or> get_status_inner w job_id = ''queued''"
    by (simp add: get_status_def)
  then have nc: "fs w (d @ [''cancelled'']) = None"
    using jd by (auto simp: get_status_inner_def is_cancelled_def has_job_file_fs split: if_splits)
  from stg have sub: "fs w (d @ [''submitted'']) \<noteq> Some Dir"
    using jd by (simp add: staged_def isdir_job_file_fs)
  have rc: "record_cancel w job_id = (Inr (), ?w1)"
    using nc jd dk by (simp add: record_cancel_def write_job_file_fs)
  have jd1: "job_dir ?w1 job_id = Some d"
    using nc jd job_dir_put_file [of "fs w" "d @ [''cancelled'']" w] by simp
  have rm: "attempt_remove_job_file ?w1 job_id ''submitted'' = ?w2"
    using sub jd1 by (simp add: attempt_remove_job_file_fs)
  have k: "kill w job_id = (Inr (), ?w2)"
    using reg s nopid rc rm by (auto simp: kill_def get_pid_def split: sum.splits option.splits)
  have jd2: "job_dir ?w2 job_id = Some d"
    using sub jd1 job_dir_drop_file [of "fs ?w1" "d @ [''submitted'']" ?w1] by simp
  have cc: "fst (check_complete ?w2 job_id) = True"
    using jd2 has_job_file_fs [of "''submitted''" ?w2 job_id]
    by (simp add: check_complete_def has_job_file_def)
  show ?thesis
    unfolding k using reg jd2 cc
    by (simp add: get_status_def get_status_inner_def is_cancelled_def has_job_file_fs)
qed

text \<open>
  The theorem at the queued job of \<open>world_queued\<close>.
\<close>

theorem kill_unstarted_job_witness:
  "''1'' \<in> job_locks world_queued \<and>
   (fst (get_status world_queued ''1'') = Inr ''running'' \<or>
    fst (get_status world_queued ''1'') = Inr ''queued'') \<and>
   fst (get_pid world_queued ''1'') = PidNone \<and>
   staged world_queued ''1'' \<and>
   disk world_queued = NoFault \<and>
   fst (get_status (snd (kill world_queued ''1'')) ''1'') = Inr ''cancelled'' \<and>
   fst (check_complete (snd (kill world_queued ''1'')) ''1'') = True"
proof -
  have h1: "''1'' \<in> job_locks world_queued" by code_simp
  have h2: "fst (get_status world_queued ''1'') = Inr ''running'' \<or>
    fst (get_status world_queued ''1'') = Inr ''queued''" by code_simp
  have h3: "fst (get_pid world_queued ''1'') = PidNone" by code_simp
  have h4: "staged world_queued ''1''" by code_simp
  have h5: "disk world_queued = NoFault" by code_simp
  from kill_unstarted_job [OF h1 h2 h3 h4 h5] h1 h2 h3 h4 h5 show ?thesis by blast
qed

subsection \<open>C4: launch of a cancelled job\<close>

text \<open>
  C4. For a registered job whose \<open>cancelled\<close> marker is set, \<open>_run\<close>, whose first step is
  the check for cancellation that \<open>launch\<close> makes after recording the submission, returns
  at once and leaves the world, whose status is \<open>cancelled\<close>, as it is. \<open>launch\<close> of such
  a job spawns no process and starts no monitor, leaves the \<open>pid\<close> marker as it was (none
  is recorded), and the status afterwards is \<open>cancelled\<close>. When the job is staged and the
  disk has no fault, \<open>launch\<close> returns normally.
\<close>

theorem launch_of_cancelled_job:
  assumes reg: "job_id \<in> job_locks w"
    and canc: "is_cancelled w job_id"
  shows "run w job_id command_line async proc = (Inr (), w) \<and>
         fst (get_status w job_id) = Inr ''cancelled'' \<and>
         procs (snd (launch w job_id command_line proc)) = procs w \<and>
         monitors (snd (launch w job_id command_line proc)) = monitors w \<and>
         has_job_file (snd (launch w job_id command_line proc)) job_id ''pid'' =
           has_job_file w job_id ''pid'' \<and>
         fst (get_status (snd (launch w job_id command_line proc)) job_id) = Inr ''cancelled'' \<and>
         (staged w job_id \<and> disk w = NoFault \<longrightarrow>
            fst (launch w job_id command_line proc) = Inr ())"
proof -
  have r: "\<And>a. run w job_id command_line a proc = (Inr (), w)"
    using reg canc by (simp add: run_def)
  from canc obtain d where jd: "job_dir w job_id = Some d"
    and c: "fs w (d @ [''cancelled'']) \<noteq> None"
    by (auto simp: is_cancelled_def has_job_file_fs split: option.splits)
  obtain res w1 where rs: "record_submission w job_id = (res, w1)"
    by (cases "record_submission w job_id")
  then have w1: "w1 = w \<or> (fs w (d @ [''submitted'']) \<noteq> Some Dir \<and>
      (w1 = w\<lparr>fs := (fs w)(d @ [''submitted''] \<mapsto> File [])\<rparr>
      \<or> w1 = w\<lparr>fs := (fs w)(d @ [''submitted''] \<mapsto> File ''true'')\<rparr>))"
    using jd by (auto simp: record_submission_def write_job_file_fs split: if_splits)
  then have jd1: "job_dir w1 job_id = Some d"
    using jd job_dir_put_file [of "fs w" "d @ [''submitted'']" w] by auto
  from w1 have reg1: "job_id \<in> job_locks w1"
    and p1: "procs w1 = procs w" and m1: "monitors w1 = monitors w"
    and f1: "fs w1 (d @ [''cancelled'']) \<noteq> None"
       "fs w1 (d @ [''pid'']) = fs w (d @ [''pid''])"
    using reg c by auto
  from jd1 f1 have canc1: "is_cancelled w1 job_id"
    by (simp add: is_cancelled_def has_job_file_fs)
  from jd jd1 f1 have pid1: "has_job_file w1 job_id ''pid'' = has_job_file w job_id ''pid''"
    by (simp add: has_job_file_fs)
  have l: "launch w job_id command_line proc = (res, w1)"
  proof (cases res)
    case (Inl e)
    with rs show ?thesis by (simp add: launch_def)
  next
    case (Inr u)
    with rs reg1 canc1 show ?thesis by (simp add: launch_def run_def)
  qed
  have ok: "staged w job_id \<and> disk w = NoFault \<longrightarrow> res = Inr ()"
    using rs jd by (auto simp: record_submission_def write_job_file_fs staged_def isdir_job_file_fs
        split: if_splits)
  show ?thesis
    unfolding l using r reg canc reg1 canc1 p1 m1 pid1 ok
    by (simp add: get_status_def get_status_inner_def)
qed

text \<open>
  The theorem at the cancelled job of \<open>world_cancelled\<close>.
\<close>

theorem launch_of_cancelled_job_witness:
  "''1'' \<in> job_locks world_cancelled \<and>
   is_cancelled world_cancelled ''1'' \<and>
   staged world_cancelled ''1'' \<and> disk world_cancelled = NoFault \<and>
   fst (launch world_cancelled ''1'' ''sleep 10000'' proc42) = Inr () \<and>
   procs (snd (launch world_cancelled ''1'' ''sleep 10000'' proc42)) = procs world_cancelled \<and>
   \<not> has_job_file (snd (launch world_cancelled ''1'' ''sleep 10000'' proc42)) ''1'' ''pid'' \<and>
   fst (get_status (snd (launch world_cancelled ''1'' ''sleep 10000'' proc42)) ''1'') =
     Inr ''cancelled''"
proof -
  have h1: "''1'' \<in> job_locks world_cancelled" by code_simp
  have h2: "is_cancelled world_cancelled ''1''" by code_simp
  have h3: "staged world_cancelled ''1''" by code_simp
  have h4: "disk world_cancelled = NoFault" by code_simp
  have h5: "\<not> has_job_file world_cancelled ''1'' ''pid''" by code_simp
  from launch_of_cancelled_job [OF h1 h2, where command_line = "''sleep 10000''" and proc = proc42]
    h1 h2 h3 h4 h5
  show ?thesis by blast
qed

subsection \<open>C5: the monitor when the return code cannot be written\<close>

text \<open>
  C5, as amended. The claim has \<open>return_code\<close> raise after a monitor whose write of the
  return code failed. That holds when no \<open>return_code\<close> file existed before; a job that
  is launched again after it finished still has the file of its earlier run. For a
  registered, staged job: when the write of \<open>return_code\<close> in the monitor fails, the
  \<^verbatim>\<open>finally\<close> block still removes the \<open>submitted\<close> and \<open>pid\<close> markers, so \<open>check_complete\<close>
  returns true and the status is \<open>complete\<close> (or \<open>cancelled\<close>, when that marker was set).
  If there was no \<open>return_code\<close> file before, \<open>return_code\<close> then raises: \<open>IOError\<close> when
  there is no file, \<open>ValueError\<close> when the file was created and left empty (the exceptions
  of the code for what the specification calls \<open>StateCorrupt\<close>). In every case it raises
  one of the two or returns what it returned before the monitor ran: no return code is made
  up for the write that failed.
\<close>

theorem monitor_when_return_code_write_fails:
  assumes reg: "job_id \<in> job_locks w"
    and stg: "staged w job_id"
    and fail: "fst (write_job_file w job_id ''return_code'' (py_str (proc_returncode proc))) = Inl e"
  shows "\<not> has_job_file (snd (monitor_execution w job_id proc)) job_id ''submitted'' \<and>
         \<not> has_job_file (snd (monitor_execution w job_id proc)) job_id ''pid'' \<and>
         fst (check_complete (snd (monitor_execution w job_id proc)) job_id) = True \<and>
         fst (get_status (snd (monitor_execution w job_id proc)) job_id) =
           Inr (if is_cancelled w job_id then ''cancelled'' else ''complete'') \<and>
         (\<not> has_job_file w job_id ''return_code'' \<longrightarrow>
            fst (return_code (snd (monitor_execution w job_id proc)) job_id) = Inl IOError \<or>
            fst (return_code (snd (monitor_execution w job_id proc)) job_id) = Inl ValueError) \<and>
         (fst (return_code (snd (monitor_execution w job_id proc)) job_id) = Inl IOError \<or>
          fst (return_code (snd (monitor_execution w job_id proc)) job_id) = Inl ValueError \<or>
          fst (return_code (snd (monitor_execution w job_id proc)) job_id) =
            fst (return_code w job_id))"
proof -
  let ?w' = "snd (monitor_execution w job_id proc)"
  from stg obtain d where jd: "job_dir w job_id = Some d"
    using job_dir_isdir by (auto simp: staged_def)
  from stg jd have sub: "fs w (d @ [''submitted'']) \<noteq> Some Dir"
    and pid: "fs w (d @ [''pid'']) \<noteq> Some Dir"
    by (simp_all add: staged_def isdir_job_file_fs)
  obtain w1 where wr: "write_job_file w job_id ''return_code'' (py_str (proc_returncode proc)) = (Inl e, w1)"
    using fail by (cases "write_job_file w job_id ''return_code'' (py_str (proc_returncode proc))") simp
  then have w1: "w1 = w \<or> (fs w (d @ [''return_code'']) \<noteq> Some Dir \<and>
      w1 = w\<lparr>fs := (fs w)(d @ [''return_code''] \<mapsto> File [])\<rparr>)"
    using jd by (auto simp: write_job_file_fs split: if_splits)
  then have jd1: "job_dir w1 job_id = Some d"
    using jd job_dir_put_file [of "fs w" "d @ [''return_code'']" w] by auto
  from w1 sub pid have s1: "fs w1 (d @ [''submitted'']) \<noteq> Some Dir"
    and p1: "fs w1 (d @ [''pid'']) \<noteq> Some Dir" and reg1: "job_id \<in> job_locks w1"
    using reg by auto
  have m: "?w' = finish_execution w1 job_id"
    using wr reg1 by (simp add: monitor_execution_def)
  have fe: "?w' = w1\<lparr>fs := ((fs w1)(d @ [''submitted''] := None))(d @ [''pid''] := None)\<rparr>"
    and jd': "job_dir ?w' job_id = Some d"
    unfolding m using finish_execution_fs [OF jd1 s1 p1] by simp_all
  have f: "fs ?w' (d @ [''submitted'']) = None" "fs ?w' (d @ [''pid'']) = None"
    "fs ?w' (d @ [''cancelled'']) = fs w (d @ [''cancelled''])"
    "fs ?w' (d @ [''return_code'']) = fs w1 (d @ [''return_code''])"
    "job_id \<in> job_locks ?w'"
    unfolding fe using w1 reg by auto
  have cc: "fst (check_complete ?w' job_id) = True"
    using f jd' has_job_file_fs [of "''submitted''" ?w' job_id]
    by (simp add: check_complete_def has_job_file_def)
  have st: "fst (get_status ?w' job_id) = Inr (if is_cancelled w job_id then ''cancelled'' else ''complete'')"
    using f jd jd' by (simp add: get_status_def get_status_inner_def is_cancelled_def has_job_file_fs)
  have stale: "fst (return_code ?w' job_id) = Inl ValueError \<or>
      fst (return_code ?w' job_id) = fst (return_code w job_id)"
    using w1 f(4) jd jd' by (auto simp: return_code_fs py_int_empty)
  have fresh: "\<not> has_job_file w job_id ''return_code'' \<longrightarrow>
      fst (return_code w job_id) = Inl IOError"
    using jd by (simp add: has_job_file_fs return_code_fs)
  show ?thesis
    using f(1,2) jd' cc st stale fresh by (auto simp: has_job_file_fs)
qed

text \<open>
  The theorem at the launched job on the failing disk of \<open>world_faulty\<close>, where there is
  no \<open>return_code\<close> file yet.
\<close>

theorem monitor_when_return_code_write_fails_witness:
  "''1'' \<in> job_locks world_faulty \<and>
   staged world_faulty ''1'' \<and>
   \<not> has_job_file world_faulty ''1'' ''return_code'' \<and>
   fst (write_job_file world_faulty ''1'' ''return_code'' (py_str (proc_returncode proc42))) =
     Inl IOError \<and>
   fst (check_complete (snd (monitor_execution world_faulty ''1'' proc42)) ''1'') = True \<and>
   (fst (return_code (snd (monitor_execution world_faulty ''1'' proc42)) ''1'') = Inl IOError \<or>
    fst (return_code (snd (monitor_execution world_faulty ''1'' proc42)) ''1'') = Inl ValueError)"
proof -
  have h1: "''1'' \<in> job_locks world_faulty" by code_simp
  have h2: "staged world_faulty ''1''" by code_simp
  have h3: "\<not> has_job_file world_faulty ''1'' ''return_code''" by code_simp
  have h4: "fst (write_job_file world_faulty ''1'' ''return_code''
      (py_str (proc_returncode proc42))) = Inl IOError" by code_simp
  from monitor_when_return_code_write_fails [OF h1 h2 h4] h1 h2 h3 h4
  show ?thesis by blast
qed

text \<open>
  C5 as stated fails: job \<^verbatim>\<open>1\<close> finished with return code 0 and is launched again; the
  second process returns 7, the monitor cannot open \<open>return_code\<close>, the job is reported
  complete, and \<open>return_code\<close> does not raise but returns the 0 of the first run.
\<close>

theorem monitor_when_return_code_write_fails_counterexample:
  "fst (return_code world_finished ''1'') = Inr 0 \<and>
   ''1'' \<in> job_locks world_relaunched \<and>
   staged world_relaunched ''1'' \<and>
   fst (get_status world_relaunched ''1'') = Inr ''running'' \<and>
   proc_returncode proc43 = 7 \<and>
   fst (write_job_file world_relaunched ''1'' ''return_code'' (py_str (proc_returncode proc43))) =
     Inl IOError \<and>
   fst (monitor_execution world_relaunched ''1'' proc43) = Inl IOError \<and>
   fst (check_complete (snd (monitor_execution world_relaunched ''1'' proc43)) ''1'') = True \<and>
   fst (return_code (snd (monitor_execution world_relaunched ''1'' proc43)) ''1'') = Inr 0"
  by code_simp

subsection \<open>C6: validation of the job id\<close>

text \<open>
  C6, as amended. The claim has \<open>setup_job\<close> reject an id with a path separator or a
  parent reference. \<open>setup_job\<close> looks at no character of the id. For every job id it
  registers the id, whether or not it then fails; the only error it returns is the
  \<open>OSError\<close> of \<open>os.mkdir\<close>; when \<open>os.mkdir\<close> can create the join of the staging directory
  and the id, the job directory exists afterwards; and when \<open>os.mkdir\<close> refuses that path,
  its error is the result and nothing but the registration has happened.
\<close>

theorem setup_job_validates_nothing:
  "job_id \<in> job_locks (snd (setup_job w job_id tool_id tool_version)) \<and>
   (fst (setup_job w job_id tool_id tool_version) = Inr job_id \<or>
    fst (setup_job w job_id tool_id tool_version) = Inl OSError) \<and>
   (fst (os_mkdir w (job_directory w job_id)) = Inr () \<longrightarrow>
      os_path_isdir (snd (setup_job w job_id tool_id tool_version)) (job_directory w job_id)) \<and>
   (fst (os_mkdir w (job_directory w job_id)) = Inl OSError \<longrightarrow>
      setup_job w job_id tool_id tool_version =
        (Inl OSError, w\<lparr>job_locks := insert job_id (job_locks w)\<rparr>))"
proof -
  let ?jd = "job_directory w job_id"
  let ?w1 = "w\<lparr>job_locks := insert job_id (job_locks w)\<rparr>"
  obtain r2 w2 where m2: "os_mkdir ?w1 ?jd = (r2, w2)" by (cases "os_mkdir ?w1 ?jd")
  obtain r3 w3 where m3: "os_mkdir w2 (inputs_directory w2 job_id) = (r3, w3)"
    by (cases "os_mkdir w2 (inputs_directory w2 job_id)")
  obtain r4 w4 where m4: "os_mkdir w3 (outputs_directory w3 job_id) = (r4, w4)"
    by (cases "os_mkdir w3 (outputs_directory w3 job_id)")
  obtain r5 w5 where m5: "os_mkdir w4 (working_directory w4 job_id) = (r5, w5)"
    by (cases "os_mkdir w4 (working_directory w4 job_id)")
  have s: "setup_job w job_id tool_id tool_version =
     (case r2 of Inl e \<Rightarrow> (Inl e, w2) | Inr u \<Rightarrow>
     (case r3 of Inl e \<Rightarrow> (Inl e, w3) | Inr u \<Rightarrow>
     (case r4 of Inl e \<Rightarrow> (Inl e, w4) | Inr u \<Rightarrow>
     (case r5 of Inl e \<Rightarrow> (Inl e, w5) | Inr u \<Rightarrow> (Inr job_id, w5)))))"
    using m2 m3 m4 m5
    by (simp add: setup_job_def register_job_def get_job_id_def split: sum.splits)
  have r: "r2 = Inr () \<or> r2 = Inl OSError" "r3 = Inr () \<or> r3 = Inl OSError"
    "r4 = Inr () \<or> r4 = Inl OSError" "r5 = Inr () \<or> r5 = Inl OSError"
    using os_mkdir_keeps(4) [of ?w1 ?jd] os_mkdir_keeps(4) [of w2 "inputs_directory w2 job_id"]
      os_mkdir_keeps(4) [of w3 "outputs_directory w3 job_id"]
      os_mkdir_keeps(4) [of w4 "working_directory w4 job_id"] m2 m3 m4 m5 by simp_all
  have l: "job_id \<in> job_locks w2" "job_id \<in> job_locks w3" "job_id \<in> job_locks w4"
    "job_id \<in> job_locks w5"
    using os_mkdir_keeps(1) [of ?w1 ?jd] os_mkdir_keeps(1) [of w2 "inputs_directory w2 job_id"]
      os_mkdir_keeps(1) [of w3 "outputs_directory w3 job_id"]
      os_mkdir_keeps(1) [of w4 "working_directory w4 job_id"] m2 m3 m4 m5 by simp_all
  have first: "r2 = fst (os_mkdir w ?jd)" "w2 = (snd (os_mkdir w ?jd))\<lparr>job_locks := insert job_id (job_locks w)\<rparr>"
    using m2 by (simp_all add: os_mkdir_locks)
  have c1: "job_id \<in> job_locks (snd (setup_job w job_id tool_id tool_version))"
    unfolding s using l by (simp split: sum.splits)
  have c2: "fst (setup_job w job_id tool_id tool_version) = Inr job_id \<or>
    fst (setup_job w job_id tool_id tool_version) = Inl OSError"
    unfolding s using r by (auto split: sum.splits)
  have c3: "os_path_isdir (snd (setup_job w job_id tool_id tool_version)) ?jd"
    if ok: "fst (os_mkdir w ?jd) = Inr ()"
  proof -
    from ok first have "fst (os_mkdir ?w1 ?jd) = Inr ()" using m2 by simp
    then have "os_path_isdir (snd (os_mkdir ?w1 ?jd)) ?jd" by (rule os_mkdir_creates)
    then have d2: "os_path_isdir w2 ?jd" using m2 by simp
    then have d3: "os_path_isdir w3 ?jd"
      using os_mkdir_keeps(3) [of w2 ?jd "inputs_directory w2 job_id"] m3 by simp
    then have d4: "os_path_isdir w4 ?jd"
      using os_mkdir_keeps(3) [of w3 ?jd "outputs_directory w3 job_id"] m4 by simp
    then have d5: "os_path_isdir w5 ?jd"
      using os_mkdir_keeps(3) [of w4 ?jd "working_directory w4 job_id"] m5 by simp
    show ?thesis unfolding s using d2 d3 d4 d5 by (simp split: sum.splits)
  qed
  have c4: "setup_job w job_id tool_id tool_version = (Inl OSError, ?w1)"
    if bad: "fst (os_mkdir w ?jd) = Inl OSError"
  proof -
    from bad os_mkdir_cases [of w ?jd] have "os_mkdir w ?jd = (Inl OSError, w)" by auto
    with first have "r2 = Inl OSError" "w2 = ?w1" by simp_all
    then show ?thesis unfolding s by simp
  qed
  from c1 c2 c3 c4 show ?thesis by blast
qed

text \<open>
  The theorem at the id \<^verbatim>\<open>../x\<close>, which \<open>os.mkdir\<close> accepts (its directory is \<^verbatim>\<open>/x\<close>, beside
  the staging directory \<^verbatim>\<open>/s\<close>), and at the id \<^verbatim>\<open>nope/../x\<close>, which \<open>os.mkdir\<close> refuses
  because \<^verbatim>\<open>/s/nope\<close> does not exist.
\<close>

theorem setup_job_validates_nothing_witness:
  "fst (os_mkdir world_manager (job_directory world_manager ''../x'')) = Inr () \<and>
   fst (os_mkdir world_manager (job_directory world_manager ''nope/../x'')) = Inl OSError \<and>
   ''../x'' \<in> job_locks (snd (setup_job world_manager ''../x'' ''tool1'' ''1.0.0'')) \<and>
   os_path_isdir (snd (setup_job world_manager ''../x'' ''tool1'' ''1.0.0''))
     (job_directory world_manager ''../x'') \<and>
   fs (snd (setup_job world_manager ''../x'' ''tool1'' ''1.0.0'')) [''x''] = Some Dir \<and>
   setup_job world_manager ''nope/../x'' ''tool1'' ''1.0.0'' =
     (Inl OSError, world_manager\<lparr>job_locks := insert ''nope/../x'' (job_locks world_manager)\<rparr>)"
proof -
  have h1: "fst (os_mkdir world_manager (job_directory world_manager ''../x'')) = Inr ()"
    by code_simp
  have h2: "fst (os_mkdir world_manager (job_directory world_manager ''nope/../x'')) = Inl OSError"
    by code_simp
  have h3: "fs (snd (setup_job world_manager ''../x'' ''tool1'' ''1.0.0'')) [''x''] = Some Dir"
    by code_simp
  from setup_job_validates_nothing [of "''../x''" world_manager "''tool1''" "''1.0.0''"]
    setup_job_validates_nothing [of "''nope/../x''" world_manager "''tool1''" "''1.0.0''"] h1 h2 h3
  show ?thesis by blast
qed

text \<open>
  C6 as stated fails: the id \<^verbatim>\<open>../x\<close> has a separator and a parent reference, and
  \<open>setup_job\<close> returns it, registers it and creates \<^verbatim>\<open>/x\<close> and \<^verbatim>\<open>/x/working\<close>, outside the
  staging directory \<^verbatim>\<open>/s\<close>.
\<close>

theorem setup_job_validates_nothing_counterexample:
  "fs world_manager [''s''] = Some Dir \<and>
   fs world_manager [''x''] = None \<and>
   fst (setup_job world_manager ''../x'' ''tool1'' ''1.0.0'') = Inr ''../x'' \<and>
   ''../x'' \<in> job_locks (snd (setup_job world_manager ''../x'' ''tool1'' ''1.0.0'')) \<and>
   fs (snd (setup_job world_manager ''../x'' ''tool1'' ''1.0.0'')) [''x''] = Some Dir \<and>
   fs (snd (setup_job world_manager ''../x'' ''tool1'' ''1.0.0'')) [''x'', ''working''] = Some Dir"
  by code_simp

subsection \<open>C7: the precedence of the status\<close>

text \<open>
  C7. For a registered job, \<open>get_status\<close> returns the status that the precedence of
  section 4.2 gives for the markers present: \<open>cancelled\<close> when the \<open>cancelled\<close> marker is
  present, else \<open>running\<close> when the \<open>pid\<close> marker is, else \<open>queued\<close> when the \<open>submitted\<close>
  marker is, else \<open>complete\<close>; and it leaves the world as it is.
\<close>

theorem get_status_precedence:
  assumes "job_id \<in> job_locks w"
  shows "get_status w job_id =
           (Inr (status_by_precedence (has_job_file w job_id ''cancelled'')
                   (has_job_file w job_id ''pid'') (has_job_file w job_id ''submitted'')), w)"
  using assms
  by (simp add: get_status_def get_status_inner_def status_by_precedence_def is_cancelled_def)

text \<open>
  The theorem at the job of \<open>world_launched\<close>, which has the \<open>pid\<close> and \<open>submitted\<close>
  markers and is \<open>running\<close>.
\<close>

theorem get_status_precedence_witness:
  "''1'' \<in> job_locks world_launched \<and>
   get_status world_launched ''1'' =
     (Inr (status_by_precedence (has_job_file world_launched ''1'' ''cancelled'')
             (has_job_file world_launched ''1'' ''pid'')
             (has_job_file world_launched ''1'' ''submitted'')), world_launched) \<and>
   status_by_precedence (has_job_file world_launched ''1'' ''cancelled'')
             (has_job_file world_launched ''1'' ''pid'')
             (has_job_file world_launched ''1'' ''submitted'') = ''running''"
proof -
  have h: "''1'' \<in> job_locks world_launched" by code_simp
  have v: "status_by_precedence (has_job_file world_launched ''1'' ''cancelled'')
             (has_job_file world_launched ''1'' ''pid'')
             (has_job_file world_launched ''1'' ''submitted'') = ''running''" by code_simp
  from get_status_precedence [OF h] h v show ?thesis by blast
qed

subsection \<open>C8: kill of a finished job\<close>

text \<open>
  C8. For a registered job whose status is neither \<open>running\<close> nor \<open>queued\<close>, \<open>kill\<close>
  returns without raising and leaves the world, with every marker, as it is; a second
  \<open>kill\<close> does the same.
\<close>

theorem kill_finished_is_noop:
  assumes "job_id \<in> job_locks w"
    and "fst (get_status w job_id) \<noteq> Inr ''running''"
    and "fst (get_status w job_id) \<noteq> Inr ''queued''"
  shows "kill w job_id = (Inr (), w) \<and> kill (snd (kill w job_id)) job_id = (Inr (), w)"
proof -
  from assms have "get_status_inner w job_id \<noteq> ''running''" "get_status_inner w job_id \<noteq> ''queued''"
    by (simp_all add: get_status_def)
  with assms(1) have "kill w job_id = (Inr (), w)" by (rule kill_noop)
  then show ?thesis by simp
qed

text \<open>
  The theorem at the job of \<open>world_finished\<close>, which its monitor has finalized.
\<close>

theorem kill_finished_is_noop_witness:
  "''1'' \<in> job_locks world_finished \<and>
   fst (get_status world_finished ''1'') \<noteq> Inr ''running'' \<and>
   fst (get_status world_finished ''1'') \<noteq> Inr ''queued'' \<and>
   kill world_finished ''1'' = (Inr (), world_finished) \<and>
   kill (snd (kill world_finished ''1'')) ''1'' = (Inr (), world_finished)"
proof -
  have h1: "''1'' \<in> job_locks world_finished" by code_simp
  have h2: "fst (get_status world_finished ''1'') \<noteq> Inr ''running''" by code_simp
  have h3: "fst (get_status world_finished ''1'') \<noteq> Inr ''queued''" by code_simp
  from kill_finished_is_noop [OF h1 h2 h3] h1 h2 h3 show ?thesis by blast
qed

subsection \<open>C9: check\_complete\<close>

text \<open>
  C9. For a registered job whose directory exists, at the path \<open>d\<close>: \<open>check_complete\<close>
  returns true exactly when the file system has no entry \<open>submitted\<close> in \<open>d\<close>, and leaves
  the world as it is. On a finalized job (no \<open>submitted\<close> and no \<open>pid\<close> entry in \<open>d\<close>),
  \<open>check_complete\<close> returns true and \<open>get_status\<close> returns \<open>complete\<close> (\<open>cancelled\<close> when
  that marker is set); both leave the world as it is, so that repeating either of them, in
  any order, returns the same results.
\<close>

theorem check_complete_iff_no_submitted:
  assumes reg: "job_id \<in> job_locks w"
    and rs: "resolve w (job_directory w job_id) = Some d"
    and dir: "node_at w d = Some Dir"
  shows "check_complete w job_id = (fs w (d @ [''submitted'']) = None, w) \<and>
         (fs w (d @ [''submitted'']) = None \<and> fs w (d @ [''pid'']) = None \<longrightarrow>
            check_complete w job_id = (True, w) \<and>
            get_status w job_id =
              (Inr (if fs w (d @ [''cancelled'']) = None then ''complete'' else ''cancelled''), w) \<and>
            check_complete (snd (check_complete w job_id)) job_id = (True, w) \<and>
            check_complete (snd (get_status w job_id)) job_id = (True, w) \<and>
            get_status (snd (check_complete w job_id)) job_id = get_status w job_id \<and>
            get_status (snd (get_status w job_id)) job_id = get_status w job_id)"
proof -
  have jd: "job_dir w job_id = Some d"
    using rs dir by (simp add: job_dir_def resolve_dir)
  have cc: "check_complete w job_id = (fs w (d @ [''submitted'']) = None, w)"
    using jd has_job_file_fs [of "''submitted''" w job_id]
    by (simp add: check_complete_def has_job_file_def)
  have gs: "fs w (d @ [''submitted'']) = None \<and> fs w (d @ [''pid'']) = None \<longrightarrow>
      get_status w job_id =
        (Inr (if fs w (d @ [''cancelled'']) = None then ''complete'' else ''cancelled''), w)"
    using reg jd by (simp add: get_status_def get_status_inner_def is_cancelled_def has_job_file_fs)
  show ?thesis using cc gs by simp
qed

text \<open>
  The theorem at the running job of \<open>world_launched\<close>, where the \<open>submitted\<close> file exists
  and \<open>check_complete\<close> is false, and at the finalized job of \<open>world_finished\<close>, where it
  is gone and \<open>check_complete\<close> is true.
\<close>

theorem check_complete_iff_no_submitted_witness:
  "''1'' \<in> job_locks world_launched \<and>
   resolve world_launched (job_directory world_launched ''1'') = Some [''s'', ''1''] \<and>
   node_at world_launched [''s'', ''1''] = Some Dir \<and>
   fs world_launched [''s'', ''1'', ''submitted''] = Some (File ''true'') \<and>
   check_complete world_launched ''1'' = (False, world_launched) \<and>
   ''1'' \<in> job_locks world_finished \<and>
   resolve world_finished (job_directory world_finished ''1'') = Some [''s'', ''1''] \<and>
   node_at world_finished [''s'', ''1''] = Some Dir \<and>
   fs world_finished [''s'', ''1'', ''submitted''] = None \<and>
   fs world_finished [''s'', ''1'', ''pid''] = None \<and>
   fs world_finished [''s'', ''1'', ''cancelled''] = None \<and>
   check_complete world_finished ''1'' = (True, world_finished) \<and>
   get_status world_finished ''1'' = (Inr ''complete'', world_finished) \<and>
   get_status (snd (check_complete world_finished ''1'')) ''1'' = (Inr ''complete'', world_finished)"
proof -
  have a1: "''1'' \<in> job_locks world_launched" by code_simp
  have a2: "resolve world_launched (job_directory world_launched ''1'') = Some [''s'', ''1'']"
    by code_simp
  have a3: "node_at world_launched [''s'', ''1''] = Some Dir" by code_simp
  have a4: "fs world_launched [''s'', ''1'', ''submitted''] = Some (File ''true'')" by code_simp
  have b1: "''1'' \<in> job_locks world_finished" by code_simp
  have b2: "resolve world_finished (job_directory world_finished ''1'') = Some [''s'', ''1'']"
    by code_simp
  have b3: "node_at world_finished [''s'', ''1''] = Some Dir" by code_simp
  have b4: "fs world_finished [''s'', ''1'', ''submitted''] = None" by code_simp
  have b5: "fs world_finished [''s'', ''1'', ''pid''] = None" by code_simp
  have b6: "fs world_finished [''s'', ''1'', ''cancelled''] = None" by code_simp
  from check_complete_iff_no_submitted [OF a1 a2 a3] a4
  have l: "check_complete world_launched ''1'' = (False, world_launched)" by simp
  from check_complete_iff_no_submitted [OF b1 b2 b3] b4 b5 b6
  have f: "check_complete world_finished ''1'' = (True, world_finished)"
    "get_status world_finished ''1'' = (Inr ''complete'', world_finished)"
    "get_status (snd (check_complete world_finished ''1'')) ''1'' = (Inr ''complete'', world_finished)"
    by simp_all
  from a1 a2 a3 a4 b1 b2 b3 b4 b5 b6 l f show ?thesis by blast
qed

subsection \<open>C10: kill of a running job\<close>

text \<open>
  C10. For a registered, staged job whose status is \<open>running\<close> and whose pid marker holds
  a process identifier \<open>p\<close> (an integer other than 0, as \<open>_record_pid\<close> writes it), \<open>kill\<close>
  sends the signal to \<open>p\<close> and changes nothing else: it writes no \<open>cancelled\<close> marker. Once
  the monitor has run, whatever the process returned and whether or not the return code
  could be written, \<open>get_status\<close> returns \<open>complete\<close>.
\<close>

theorem kill_of_running_job:
  assumes reg: "job_id \<in> job_locks w"
    and st: "fst (get_status w job_id) = Inr ''running''"
    and pid: "fst (get_pid w job_id) = PidInt p"
    and nz: "p \<noteq> 0"
    and stg: "staged w job_id"
  shows "kill w job_id = (Inr (), w\<lparr>signalled := signalled w @ [p]\<rparr>) \<and>
         \<not> has_job_file (snd (kill w job_id)) job_id ''cancelled'' \<and>
         fst (get_status (snd (monitor_execution (snd (kill w job_id)) job_id proc)) job_id) =
           Inr ''complete''"
proof -
  let ?wk = "w\<lparr>signalled := signalled w @ [p]\<rparr>"
  let ?w' = "snd (monitor_execution ?wk job_id proc)"
  from stg obtain d where jd: "job_dir w job_id = Some d"
    using job_dir_isdir by (auto simp: staged_def)
  from st reg have s: "get_status_inner w job_id = ''running''"
    by (simp add: get_status_def)
  then have nc: "fs w (d @ [''cancelled'']) = None"
    using jd by (auto simp: get_status_inner_def is_cancelled_def has_job_file_fs split: if_splits)
  have gp: "get_pid w job_id = (PidInt p, w)"
    using pid by (auto simp: get_pid_def split: sum.splits option.splits)
  have k: "kill w job_id = (Inr (), ?wk)"
    using reg s gp nz by (simp add: kill_def)
  from stg jd have sub: "fs w (d @ [''submitted'']) \<noteq> Some Dir" and pd: "fs w (d @ [''pid'']) \<noteq> Some Dir"
    by (simp_all add: staged_def isdir_job_file_fs)
  obtain g where m: "?w' = ?wk\<lparr>fs := (((fs ?wk)(d @ [''return_code''] := g))
                 (d @ [''submitted''] := None))(d @ [''pid''] := None)\<rparr>"
    and jd': "job_dir ?w' job_id = Some d"
    using monitor_execution_fs [of job_id ?wk d proc] reg jd sub pd by auto
  have f: "fs ?w' (d @ [''submitted'']) = None" "fs ?w' (d @ [''pid'']) = None"
    "fs ?w' (d @ [''cancelled'']) = None" "job_id \<in> job_locks ?w'"
    unfolding m using nc reg by simp_all
  have "fst (get_status ?w' job_id) = Inr ''complete''"
    using f jd' by (simp add: get_status_def get_status_inner_def is_cancelled_def has_job_file_fs)
  then show ?thesis
    unfolding k using nc jd by (simp add: has_job_file_fs)
qed

text \<open>
  The theorem at the running job of \<open>world_launched\<close>, process 42.
\<close>

theorem kill_of_running_job_witness:
  "''1'' \<in> job_locks world_launched \<and>
   fst (get_status world_launched ''1'') = Inr ''running'' \<and>
   fst (get_pid world_launched ''1'') = PidInt 42 \<and>
   (42::int) \<noteq> 0 \<and>
   staged world_launched ''1'' \<and>
   kill world_launched ''1'' =
     (Inr (), world_launched\<lparr>signalled := signalled world_launched @ [42]\<rparr>) \<and>
   fst (get_status (snd (monitor_execution (snd (kill world_launched ''1'')) ''1'' proc42)) ''1'') =
     Inr ''complete''"
proof -
  have h1: "''1'' \<in> job_locks world_launched" by code_simp
  have h2: "fst (get_status world_launched ''1'') = Inr ''running''" by code_simp
  have h3: "fst (get_pid world_launched ''1'') = PidInt 42" by code_simp
  have h4: "(42::int) \<noteq> 0" by simp
  have h5: "staged world_launched ''1''" by code_simp
  from kill_of_running_job [OF h1 h2 h3 h4 h5, where proc = proc42] h1 h2 h3 h4 h5
  show ?thesis by blast
qed

end
